theory Spec2Isabelle
  imports Complex_Main "HOL-Library.Word" "HOL-Library.Log_Nat" "HOL-Library.Multiset"
    "HOL-Library.List_Lexorder"
begin

unbundle bit_operations_syntax

section \<open>mkfs.ubifs: the image assembly pipeline\<close>

text \<open>
  A shallow embedding of \<^verbatim>\<open>ubifs-utils/mkfs.ubifs/mkfs.ubifs.c\<close> and of the compression
  front end (\<^verbatim>\<open>compr.c\<close>), for the build with LZO, ZLIB, ZSTD, extended attributes and
  file encryption compiled in.

  Conventions.
  \<^item> A C \<^verbatim>\<open>int\<close> is an \<^typ>\<open>int\<close>; every \<^verbatim>\<open>int\<close> of the program is an offset, a length or
    a LEB number bounded by the validated geometry (\<^verbatim>\<open>leb_size\<close> is at most 2 MiB), so no
    arithmetic on them overflows.
  \<^item> Unsigned counters (\<^verbatim>\<open>ino_t\<close>, \<^verbatim>\<open>unsigned long long\<close> sequence numbers, link counts,
    \<^verbatim>\<open>size_t\<close> lengths) are naturals; they start small and grow by one per node or
    entry, and their wrap-around at the type's width is not modelled.
  \<^item> A buffer is a list of bytes; \<^verbatim>\<open>memcpy\<close> and \<^verbatim>\<open>memset\<close> replace a slice of it.
  \<^item> The program's global variables (\<^verbatim>\<open>info_\<close>, the write head, the buffers, the tables)
    are the fields of one record, passed in and returned. A function returns that record
    also when it fails, since what it changed before failing stays changed.
  \<^item> What the program only calls (the compression libraries, CRC, hashing, signing and
    encryption, the device table, the output target, the host file system) is a
    parameter: the record \<open>ext\<close> for the library functions, a tree of answers for the
    host file system.
\<close>

subsection \<open>Scalars, buffers and alignment\<close>

type_synonym byte = "8 word"

text \<open>The \<^verbatim>\<open>ALIGN(x, a)\<close> macro: \<^verbatim>\<open>((x) + (a) - 1) & ~((a) - 1)\<close>.\<close>

definition ALIGN :: "int \<Rightarrow> int \<Rightarrow> int" where
  "ALIGN x a = (x + (a - 1)) AND NOT (a - 1)"

text \<open>\<^verbatim>\<open>memcpy(dst + off, src, n)\<close> and \<^verbatim>\<open>memset(dst + off, b, n)\<close>.\<close>

definition buf_store :: "byte list \<Rightarrow> nat \<Rightarrow> byte list \<Rightarrow> byte list" where
  "buf_store buf off bytes = take off buf @ bytes @ drop (off + length bytes) buf"

definition memcpy :: "byte list \<Rightarrow> nat \<Rightarrow> byte list \<Rightarrow> nat \<Rightarrow> byte list" where
  "memcpy dst off src n = buf_store dst off (take n src)"

definition memset :: "byte list \<Rightarrow> nat \<Rightarrow> byte \<Rightarrow> nat \<Rightarrow> byte list" where
  "memset dst off b n = buf_store dst off (replicate n b)"

text \<open>Little-endian images of 32-bit and 64-bit values (\<^verbatim>\<open>cpu_to_le32\<close>, \<^verbatim>\<open>cpu_to_le64\<close>).\<close>

definition le32 :: "32 word \<Rightarrow> byte list" where
  "le32 w = map (\<lambda>i. ucast (drop_bit (8 * i) w)) [0, 1, 2, 3]"

definition le64 :: "64 word \<Rightarrow> byte list" where
  "le64 w = map (\<lambda>i. ucast (drop_bit (8 * i) w)) [0, 1, 2, 3, 4, 5, 6, 7]"

subsection \<open>Constants of the on-flash format\<close>

text \<open>
  The values of \<^verbatim>\<open>ubifs-media.h\<close> and \<^verbatim>\<open>ubifs.h\<close> (headers that are not among the
  sources at hand); the theorems below name them and do not depend on the numbers,
  except where one says so.
\<close>

definition UBIFS_NODE_MAGIC :: "32 word" where "UBIFS_NODE_MAGIC = 0x06101831"
definition UBIFS_CH_SZ :: int where "UBIFS_CH_SZ = 24"
definition UBIFS_INO_NODE_SZ :: int where "UBIFS_INO_NODE_SZ = 160"
definition UBIFS_DATA_NODE_SZ :: int where "UBIFS_DATA_NODE_SZ = 48"
definition UBIFS_DENT_NODE_SZ :: int where "UBIFS_DENT_NODE_SZ = 56"
definition UBIFS_XENT_NODE_SZ :: int where "UBIFS_XENT_NODE_SZ = UBIFS_DENT_NODE_SZ"
definition UBIFS_MST_NODE_SZ :: int where "UBIFS_MST_NODE_SZ = 512"
definition UBIFS_SB_NODE_SZ :: int where "UBIFS_SB_NODE_SZ = 4096"
definition UBIFS_BLOCK_SIZE :: nat where "UBIFS_BLOCK_SIZE = 4096"
definition UBIFS_MIN_COMPR_LEN :: nat where "UBIFS_MIN_COMPR_LEN = 128"
definition UBIFS_MAX_INO_DATA :: nat where "UBIFS_MAX_INO_DATA = 4096"
definition UBIFS_MAX_NLEN :: nat where "UBIFS_MAX_NLEN = 255"
definition MIN_WRITE_SZ :: int where "MIN_WRITE_SZ = UBIFS_DATA_NODE_SZ + 8"

definition UBIFS_SB_LNUM :: int where "UBIFS_SB_LNUM = 0"
definition UBIFS_SB_LEBS :: int where "UBIFS_SB_LEBS = 1"
definition UBIFS_MST_LNUM :: int where "UBIFS_MST_LNUM = UBIFS_SB_LNUM + UBIFS_SB_LEBS"
definition UBIFS_MST_LEBS :: int where "UBIFS_MST_LEBS = 2"
definition UBIFS_LOG_LNUM :: int where "UBIFS_LOG_LNUM = UBIFS_MST_LNUM + UBIFS_MST_LEBS"

definition UBIFS_ROOT_INO :: nat where "UBIFS_ROOT_INO = 1"
definition UBIFS_FIRST_INO :: nat where "UBIFS_FIRST_INO = 64"

definition UBIFS_COMPR_NONE :: int where "UBIFS_COMPR_NONE = 0"
definition UBIFS_COMPR_LZO :: int where "UBIFS_COMPR_LZO = 1"
definition UBIFS_COMPR_ZLIB :: int where "UBIFS_COMPR_ZLIB = 2"
definition UBIFS_COMPR_ZSTD :: int where "UBIFS_COMPR_ZSTD = 3"

definition UBIFS_INO_KEY :: nat where "UBIFS_INO_KEY = 0"
definition UBIFS_DATA_KEY :: nat where "UBIFS_DATA_KEY = 1"
definition UBIFS_DENT_KEY :: nat where "UBIFS_DENT_KEY = 2"
definition UBIFS_XENT_KEY :: nat where "UBIFS_XENT_KEY = 3"

definition UBIFS_INO_NODE :: byte where "UBIFS_INO_NODE = 0"
definition UBIFS_DATA_NODE :: byte where "UBIFS_DATA_NODE = 1"
definition UBIFS_DENT_NODE :: byte where "UBIFS_DENT_NODE = 2"
definition UBIFS_XENT_NODE :: byte where "UBIFS_XENT_NODE = 3"
definition UBIFS_SB_NODE :: byte where "UBIFS_SB_NODE = 6"
definition UBIFS_MST_NODE :: byte where "UBIFS_MST_NODE = 7"

definition UBIFS_ITYPE_REG :: nat where "UBIFS_ITYPE_REG = 0"
definition UBIFS_ITYPE_DIR :: nat where "UBIFS_ITYPE_DIR = 1"
definition UBIFS_ITYPE_LNK :: nat where "UBIFS_ITYPE_LNK = 2"
definition UBIFS_ITYPE_BLK :: nat where "UBIFS_ITYPE_BLK = 3"
definition UBIFS_ITYPE_CHR :: nat where "UBIFS_ITYPE_CHR = 4"
definition UBIFS_ITYPE_FIFO :: nat where "UBIFS_ITYPE_FIFO = 5"
definition UBIFS_ITYPE_SOCK :: nat where "UBIFS_ITYPE_SOCK = 6"

definition UBIFS_COMPR_FL :: int where "UBIFS_COMPR_FL = 0x01"
definition UBIFS_SYNC_FL :: int where "UBIFS_SYNC_FL = 0x02"
definition UBIFS_IMMUTABLE_FL :: int where "UBIFS_IMMUTABLE_FL = 0x04"
definition UBIFS_APPEND_FL :: int where "UBIFS_APPEND_FL = 0x08"
definition UBIFS_DIRSYNC_FL :: int where "UBIFS_DIRSYNC_FL = 0x10"
definition UBIFS_XATTR_FL :: int where "UBIFS_XATTR_FL = 0x20"
definition UBIFS_CRYPT_FL :: int where "UBIFS_CRYPT_FL = 0x40"

definition UBIFS_MST_NO_ORPHS :: int where "UBIFS_MST_NO_ORPHS = 2"
definition UBIFS_FLG_BIGLPT :: int where "UBIFS_FLG_BIGLPT = 0x02"
definition UBIFS_FLG_SPACE_FIXUP :: int where "UBIFS_FLG_SPACE_FIXUP = 0x04"
definition UBIFS_FLG_DOUBLE_HASH :: int where "UBIFS_FLG_DOUBLE_HASH = 0x08"
definition UBIFS_FLG_ENCRYPTION :: int where "UBIFS_FLG_ENCRYPTION = 0x10"
definition UBIFS_FLG_AUTHENTICATION :: int where "UBIFS_FLG_AUTHENTICATION = 0x20"
definition LPROPS_INDEX :: int where "LPROPS_INDEX = 0x20"
definition DEFAULT_TIME_GRAN :: int where "DEFAULT_TIME_GRAN = 1000000000"
definition HASH_TABLE_SIZE :: nat where "HASH_TABLE_SIZE = 10099"

text \<open>The flags of \<^verbatim>\<open>FS_IOC_GETFLAGS\<close> (\<^verbatim>\<open>linux/fs.h\<close>) and the file types of \<^verbatim>\<open>st_mode\<close>.\<close>

definition FS_SYNC_FL :: int where "FS_SYNC_FL = 0x08"
definition FS_COMPR_FL :: int where "FS_COMPR_FL = 0x04"
definition FS_IMMUTABLE_FL :: int where "FS_IMMUTABLE_FL = 0x10"
definition FS_APPEND_FL :: int where "FS_APPEND_FL = 0x20"
definition FS_DIRSYNC_FL :: int where "FS_DIRSYNC_FL = 0x10000"

definition S_IFMT :: nat where "S_IFMT = 0xF000"
definition S_IFREG :: nat where "S_IFREG = 0x8000"
definition S_ISREG :: "nat \<Rightarrow> bool" where "S_ISREG m = (m AND S_IFMT = 0x8000)"
definition S_ISDIR :: "nat \<Rightarrow> bool" where "S_ISDIR m = (m AND S_IFMT = 0x4000)"
definition S_ISCHR :: "nat \<Rightarrow> bool" where "S_ISCHR m = (m AND S_IFMT = 0x2000)"
definition S_ISBLK :: "nat \<Rightarrow> bool" where "S_ISBLK m = (m AND S_IFMT = 0x6000)"
definition S_ISFIFO :: "nat \<Rightarrow> bool" where "S_ISFIFO m = (m AND S_IFMT = 0x1000)"
definition S_ISLNK :: "nat \<Rightarrow> bool" where "S_ISLNK m = (m AND S_IFMT = 0xA000)"
definition S_ISSOCK :: "nat \<Rightarrow> bool" where "S_ISSOCK m = (m AND S_IFMT = 0xC000)"

subsection \<open>Nodes\<close>

text \<open>
  The common header \<^verbatim>\<open>struct ubifs_ch\<close>: magic, crc, sqnum, len, node type, group type
  and two bytes of padding, 24 bytes on flash.
\<close>

record ubifs_ch =
  ch_magic :: "32 word"
  ch_crc :: "32 word"
  ch_sqnum :: nat
  ch_len :: int
  ch_node_type :: byte
  ch_group_type :: byte

definition ch_bytes :: "ubifs_ch \<Rightarrow> byte list" where
  "ch_bytes h = le32 (ch_magic h) @ le32 (ch_crc h) @ le64 (of_nat (ch_sqnum h)) @
     le32 (word_of_int (ch_len h)) @ [ch_node_type h, ch_group_type h, 0, 0]"

definition zero_ch :: ubifs_ch where
  "zero_ch = \<lparr>ch_magic = 0, ch_crc = 0, ch_sqnum = 0, ch_len = 0, ch_node_type = 0,
     ch_group_type = 0\<rparr>"

text \<open>
  Modelled from the spec: \<^verbatim>\<open>union ubifs_key\<close> and the functions of \<^verbatim>\<open>key.h\<close>, a header that
  is not among the sources. The spec gives a key as the compound of an inode number, a
  type and a name hash or block number, compared as that triple, numerically.
\<close>

record ubifs_key =
  key_inum :: nat
  key_type :: nat
  key_hash :: nat

record ubifs_ino_node =
  ino_key :: ubifs_key
  ino_creat_sqnum :: nat
  ino_size :: int
  ino_nlink :: nat
  ino_atime_sec :: int
  ino_ctime_sec :: int
  ino_mtime_sec :: int
  ino_uid :: nat
  ino_gid :: nat
  ino_mode :: nat
  ino_flags :: int
  ino_compr_type :: int
  ino_data_len :: nat
  ino_xattr_cnt :: nat
  ino_xattr_size :: nat
  ino_xattr_names :: nat
  ino_data :: "byte list"

text \<open>\<^verbatim>\<open>struct ubifs_dent_node\<close>, for directory entries and extended attribute entries.\<close>

record ubifs_dent_node =
  dent_key :: ubifs_key
  dent_inum :: nat
  dent_type :: nat
  dent_nlen :: nat
  dent_cookie :: "32 word"
  dent_name :: string

record ubifs_data_node =
  dn_key :: ubifs_key
  dn_size :: nat
  dn_compr_type :: int
  dn_compr_size :: nat
  dn_data :: "byte list"

record ubifs_mst_node =
  mst_highest_inum :: nat
  mst_cmt_no :: nat
  mst_flags :: int
  mst_log_lnum :: int
  mst_root_lnum :: int
  mst_root_offs :: int
  mst_root_len :: int
  mst_gc_lnum :: int
  mst_ihead_lnum :: int
  mst_ihead_offs :: int
  mst_index_size :: nat
  mst_total_free :: int
  mst_total_dirty :: int
  mst_total_used :: int
  mst_total_dead :: int
  mst_total_dark :: int
  mst_lpt_lnum :: int
  mst_lpt_offs :: int
  mst_nhead_lnum :: int
  mst_nhead_offs :: int
  mst_ltab_lnum :: int
  mst_ltab_offs :: int
  mst_lsave_lnum :: int
  mst_lsave_offs :: int
  mst_lscan_lnum :: int
  mst_empty_lebs :: int
  mst_idx_lebs :: int
  mst_leb_cnt :: int
  mst_hash_root_idx :: "byte list"
  mst_hash_lpt :: "byte list"

record ubifs_sb_node =
  sup_key_hash :: int
  sup_flags :: int
  sup_min_io_size :: int
  sup_leb_size :: int
  sup_leb_cnt :: int
  sup_max_leb_cnt :: int
  sup_max_bud_bytes :: int
  sup_log_lebs :: int
  sup_lpt_lebs :: int
  sup_orph_lebs :: int
  sup_jhead_cnt :: int
  sup_fanout :: int
  sup_lsave_cnt :: int
  sup_fmt_version :: int
  sup_default_compr :: int
  sup_rp_size :: int
  sup_time_gran :: int
  sup_uuid :: "byte list"
  sup_hash_algo :: int
  sup_hash_mst :: "byte list"

text \<open>
  A node is its common header and what follows it. An extended attribute entry is a
  \<open>Dent_body\<close> under the node type \<open>UBIFS_XENT_NODE\<close>. \<open>Sig_body\<close> is the signature node
  that follows the superblock: its \<^verbatim>\<open>len\<close> field and the signature.
\<close>

datatype node_body =
    Ino_body ubifs_ino_node
  | Dent_body ubifs_dent_node
  | Data_body ubifs_data_node
  | Mst_body ubifs_mst_node
  | Sb_body ubifs_sb_node
  | Sig_body nat "byte list"

record node =
  node_ch :: ubifs_ch
  node_body :: node_body

subsection \<open>The host file system and the device table\<close>

record stat =
  st_dev :: nat
  st_ino :: nat
  st_mode :: nat
  st_nlink :: nat
  st_uid :: nat
  st_gid :: nat
  st_rdev :: nat
  st_size :: int
  st_atime :: int
  st_ctime :: int
  st_mtime :: int

text \<open>An entry of the device table (\<^verbatim>\<open>struct name_htbl_element\<close>).\<close>

record name_htbl_element =
  nh_name :: string
  nh_mode :: nat
  nh_uid :: nat
  nh_gid :: nat
  nh_dev :: nat

text \<open>
  What \<^verbatim>\<open>llistxattr\<close> and \<^verbatim>\<open>lgetxattr\<close> answer for a path: no attributes (the call fails
  with \<^verbatim>\<open>ENOENT\<close> or \<^verbatim>\<open>EOPNOTSUPP\<close>, or reports length 0), a failure, or the names, each
  with its value (\<open>None\<close> when \<^verbatim>\<open>lgetxattr\<close> fails), and whether the second \<^verbatim>\<open>llistxattr\<close>
  call succeeds.
\<close>

datatype llistxattr_res =
    LX_none
  | LX_fail
  | LX_names "(string \<times> byte list option) list" bool

text \<open>What the host answers for one path name, whatever kind of file it names.\<close>

record hpath =
  hp_open_ok :: bool
  hp_fsflags :: "int option"
  hp_close_ok :: bool
  hp_data :: "byte list"
  hp_read_err :: "nat option"
  hp_readlink :: "byte list option"
  hp_xattrs :: llistxattr_res
  hp_secontext :: "byte list"
  hp_lsetxattr_ok :: bool
  hp_dirfd_ok :: bool

text \<open>
  The source tree as the walk sees it. A node carries the answers for its own path,
  whether \<^verbatim>\<open>opendir\<close> succeeds on it, the entries \<^verbatim>\<open>readdir\<close> yields in order, whether
  \<^verbatim>\<open>readdir\<close> then ends normally, whether \<^verbatim>\<open>closedir\<close> succeeds, and the names the device
  table adds to this directory. An entry carries its name, the answer of \<^verbatim>\<open>lstat\<close>, the
  device table's element for the name if there is one, and the node below.
\<close>

datatype hnode =
    HNode (h_path: hpath) (h_opendir_ok: bool) (h_entries: "hdirent list")
      (h_readdir_ok: bool) (h_closedir_ok: bool) (h_devtbl: "hdevent list")
and hdirent =
    HDirent (d_name: string) (d_lstat: "stat option") (d_nh: "name_htbl_element option")
      (d_node: hnode)
and hdevent =
    HDevent (dv_nh: name_htbl_element) (dv_node: hnode)

subsection \<open>The library functions\<close>

text \<open>What a compression library leaves behind: success, the output bytes, the length.\<close>

record ext_compr_result =
  xr_ok :: bool
  xr_out :: "byte list"
  xr_len :: nat

type_synonym fscrypt_context = "byte list"

text \<open>
  The functions the program calls and this repository's sources at hand do not define.
  \<open>ext_image\<close> is the little-endian layout of what follows a node's common header;
  \<open>ext_pad n\<close> is what \<^verbatim>\<open>ubifs_pad\<close> writes into a gap of \<open>n\<close> bytes; \<open>ext_leb_change\<close> is
  the error number of \<^verbatim>\<open>ubifs_leb_change\<close> for a LEB number and an image (0 when the write
  succeeds; the function returns the negated error number, as the kernel's does);
  \<open>ext_sign_superblock\<close> gives the return code of \<^verbatim>\<open>ubifs_sign_superblock_node\<close> and the
  signature node it leaves behind the superblock node (all zero when the image is not
  authenticated); the compressors take the input and the capacity of the output buffer.
\<close>

record ext =
  ext_crc32 :: "byte list \<Rightarrow> 32 word"
  ext_pad :: "nat \<Rightarrow> byte list"
  ext_image :: "node_body \<Rightarrow> byte list"
  ext_leb_change :: "int \<Rightarrow> byte list \<Rightarrow> nat"
  ext_node_hash :: "byte list \<Rightarrow> byte list"
  ext_mst_hash :: "byte list \<Rightarrow> int \<times> byte list"
  ext_sign_superblock :: "byte list \<Rightarrow> int \<times> node"
  ext_uuid :: "byte list"
  ext_lzo1x_999 :: "byte list \<Rightarrow> nat \<Rightarrow> ext_compr_result"
  ext_deflate :: "byte list \<Rightarrow> nat \<Rightarrow> ext_compr_result"
  ext_zstd :: "byte list \<Rightarrow> nat \<Rightarrow> ext_compr_result"
  ext_key_hash :: "string \<Rightarrow> nat"
  ext_override_attributes :: "stat \<Rightarrow> name_htbl_element \<Rightarrow> stat option"
  ext_inherit_fscrypt_context :: "fscrypt_context \<Rightarrow> fscrypt_context"
  ext_encrypt_path :: "fscrypt_context \<Rightarrow> string \<Rightarrow> nat \<Rightarrow> string option"
  ext_encrypt_data_node ::
    "fscrypt_context \<Rightarrow> nat \<Rightarrow> ubifs_data_node \<Rightarrow> nat \<Rightarrow> ubifs_data_node option"
  ext_fname_encrypted_size :: "fscrypt_context \<Rightarrow> nat \<Rightarrow> nat"
  ext_rand_cookie :: "nat \<Rightarrow> string \<Rightarrow> 32 word"
  ext_strtoull :: "byte list \<Rightarrow> nat"

subsection \<open>The program state\<close>

record idx_entry =
  ie_key :: ubifs_key
  ie_name :: "string option"
  ie_name_len :: nat
  ie_lnum :: int
  ie_offs :: int
  ie_len :: int
  ie_hash :: "byte list"

record ubifs_lprops =
  lp_free :: int
  lp_dirty :: int
  lp_flags :: int

text \<open>
  \<^verbatim>\<open>struct inum_mapping\<close>. \<open>im_host\<close> stands for the file that \<open>im_path_name\<close> names on the
  host: the program keeps the path and opens it again after the walk.
\<close>

record inum_mapping =
  im_dev :: nat
  im_inum :: nat
  im_use_inum :: nat
  im_use_nlink :: nat
  im_path_name :: string
  im_host :: hpath
  im_st :: stat

datatype error =
    E_dent_without_name
  | E_name_for_non_dent
  | E_leb_change nat
  | E_bad_root
  | E_opendir
  | E_readdir
  | E_lstat
  | E_override
  | E_devtable_regular
  | E_inum_attr
  | E_closedir
  | E_dirfd
  | E_open
  | E_close
  | E_read
  | E_size_changed
  | E_readlink
  | E_symlink_too_long
  | E_unknown_type
  | E_llistxattr
  | E_lgetxattr
  | E_inum_mismatch
  | E_expected_symlink
  | E_encrypt
  | E_index_too_big
  | E_mst_hash int
  | E_sign int

text \<open>
  The global variables: the fields of \<^verbatim>\<open>info_\<close> that the program reads or writes (the
  fields of \<^verbatim>\<open>c->lst\<close>, \<^verbatim>\<open>c->zroot\<close> and \<^verbatim>\<open>c->bi\<close> under a prefix), the file-scope
  variables of \<^verbatim>\<open>mkfs.ubifs.c\<close> and of \<^verbatim>\<open>compr.c\<close>, and the output target as the images
  written so far, by LEB number. \<open>selinux\<close> stands for \<^verbatim>\<open>context && sehnd\<close>, \<open>authenticated\<close>
  for \<^verbatim>\<open>ubifs_authenticated(c)\<close>. The index list is the list of its entries, first to
  last. The hash table is its chains, by bucket. \<open>emitted\<close> is not a variable of the
  program: it records, in order, the nodes that \<^verbatim>\<open>add_node\<close> has put on the write head, so
  that what was written can be stated on nodes and not on bytes.
\<close>

record state =
  min_io_size :: int
  leb_size :: int
  max_leb_cnt :: int
  leb_cnt :: int
  main_first :: int
  main_lebs :: int
  log_lebs :: int
  lpt_lebs :: int
  orph_lebs :: int
  jhead_cnt :: int
  fanout :: int
  lsave_cnt :: int
  max_bud_bytes :: int
  rp_size :: int
  default_compr :: int
  favor_lzo :: int
  favor_percent :: int
  double_hash :: int
  encrypted :: int
  big_lpt :: int
  space_fixup :: int
  key_hash_type :: int
  hash_algo :: int
  hash_len :: nat
  authenticated :: bool
  dead_wm :: int
  dark_wm :: int
  highest_inum :: nat
  max_sqnum :: nat
  zroot_lnum :: int
  zroot_offs :: int
  zroot_len :: int
  gc_lnum :: int
  ihead_lnum :: int
  ihead_offs :: int
  bi_old_idx_sz :: nat
  lpt_lnum :: int
  lpt_offs :: int
  nhead_lnum :: int
  nhead_offs :: int
  ltab_lnum :: int
  ltab_offs :: int
  lsave_lnum :: int
  lsave_offs :: int
  lscan_lnum :: int
  lst_empty_lebs :: int
  lst_idx_lebs :: int
  lst_total_free :: int
  lst_total_dirty :: int
  lst_total_used :: int
  lst_total_dead :: int
  lst_total_dark :: int
  lpt :: "ubifs_lprops list"
  root_idx_hash :: "byte list"
  lpt_hash :: "byte list"
  mst_hash :: "byte list"
  head_lnum :: int
  head_offs :: int
  head_flags :: int
  idx_list :: "idx_entry list"
  leb_buf :: "byte list"
  hash_table :: "nat \<Rightarrow> inum_mapping list"
  creat_sqnum :: nat
  squash_owner :: int
  do_create_inum_attr :: int
  selinux :: bool
  root_st :: stat
  errcnt :: nat
  zlib_buf :: "byte list"
  target :: "int \<Rightarrow> byte list option"
  emitted :: "node list"

text \<open>The result of a function of the program: an error or a value, and the state.\<close>

type_synonym 'a result = "(error + 'a) \<times> state"

subsection \<open>Double precision\<close>

text \<open>
  \<^verbatim>\<open>favor_lzo_compress\<close> computes a ratio in \<^verbatim>\<open>double\<close>. A finite non-negative double is
  modelled by the rational it denotes; an operation is the exact operation followed by
  rounding to 53 significant bits, to nearest, ties to even (IEEE 754 binary64, in the
  normal range, which the ratios of two buffer lengths never leave).
\<close>

definition round_half_even :: "rat \<Rightarrow> int" where
  "round_half_even x =
     (let f = \<lfloor>x\<rfloor>; d = x - of_int f
      in if d < 1 / 2 then f else if 1 / 2 < d then f + 1
         else if even f then f else f + 1)"

text \<open>The exponent of a positive rational: the \<open>e\<close> with \<open>2 ^ e \<le> x < 2 ^ (e + 1)\<close>.\<close>

definition floor_log2 :: "rat \<Rightarrow> int" where
  "floor_log2 x =
     (let (p, q) = quotient_of x; a = bitlen p - 1; b = bitlen q - 1
      in if q * 2 ^ nat a \<le> p * 2 ^ nat b then a - b else a - b - 1)"

definition pow2 :: "int \<Rightarrow> rat" where
  "pow2 e = (if 0 \<le> e then 2 ^ nat e else 1 / 2 ^ nat (- e))"

definition double_round :: "rat \<Rightarrow> rat" where
  "double_round x =
     (if x \<le> 0 then 0
      else let e = floor_log2 x
           in of_int (round_half_even (x / pow2 (e - 52))) * pow2 (e - 52))"

definition double_of_nat :: "nat \<Rightarrow> rat" where
  "double_of_nat n = double_round (of_nat n)"

definition double_div :: "rat \<Rightarrow> rat \<Rightarrow> rat" where
  "double_div a b = double_round (a / b)"

definition double_mul :: "rat \<Rightarrow> rat \<Rightarrow> rat" where
  "double_mul a b = double_round (a * b)"

subsection \<open>Compression (\<^verbatim>\<open>compr.c\<close>)\<close>

text \<open>
  Each function returns its return code, the output buffer and \<^verbatim>\<open>*out_len\<close>; the input is
  the first \<open>in_len\<close> bytes of \<open>in_buf\<close>.
\<close>

definition zlib_deflate ::
  "ext \<Rightarrow> byte list \<Rightarrow> nat \<Rightarrow> byte list \<Rightarrow> nat \<Rightarrow> state \<Rightarrow> (int \<times> byte list \<times> nat) \<times> state"
where
  "zlib_deflate E in_buf in_len out_buf out_len s =
     (let r = ext_deflate E (take in_len in_buf) out_len;
          out_buf' = buf_store out_buf 0 (xr_out r)
      in if xr_ok r then ((0, out_buf', xr_len r), s)
         else ((- 1, out_buf', out_len), s\<lparr>errcnt := errcnt s + 1\<rparr>))"

definition lzo_compress ::
  "ext \<Rightarrow> byte list \<Rightarrow> nat \<Rightarrow> byte list \<Rightarrow> nat \<Rightarrow> state \<Rightarrow> (int \<times> byte list \<times> nat) \<times> state"
where
  "lzo_compress E in_buf in_len out_buf out_len s =
     (let r = ext_lzo1x_999 E (take in_len in_buf) out_len;
          out_buf' = buf_store out_buf 0 (xr_out r)
      in if xr_ok r then ((0, out_buf', xr_len r), s)
         else ((- 1, out_buf', xr_len r), s\<lparr>errcnt := errcnt s + 1\<rparr>))"

definition zstd_compress ::
  "ext \<Rightarrow> byte list \<Rightarrow> nat \<Rightarrow> byte list \<Rightarrow> nat \<Rightarrow> state \<Rightarrow> (int \<times> byte list \<times> nat) \<times> state"
where
  "zstd_compress E in_buf in_len out_buf out_len s =
     (let r = ext_zstd E (take in_len in_buf) out_len;
          out_buf' = buf_store out_buf 0 (xr_out r)
      in if xr_ok r then ((0, out_buf', xr_len r), s)
         else ((- 1, out_buf', out_len), s\<lparr>errcnt := errcnt s + 1\<rparr>))"

definition no_compress :: "byte list \<Rightarrow> nat \<Rightarrow> byte list \<Rightarrow> int \<times> byte list \<times> nat" where
  "no_compress in_buf in_len out_buf = (0, memcpy out_buf 0 in_buf in_len, in_len)"

text \<open>
  \<^verbatim>\<open>favor_lzo_compress\<close> also returns \<^verbatim>\<open>*type\<close>. The comparison
  \<^verbatim>\<open>percent > 100 - c->favor_percent\<close> is between doubles.
\<close>

definition favor_lzo_compress ::
  "ext \<Rightarrow> byte list \<Rightarrow> nat \<Rightarrow> byte list \<Rightarrow> nat \<Rightarrow> int \<Rightarrow> state \<Rightarrow>
     (int \<times> byte list \<times> nat \<times> int) \<times> state"
where
  "favor_lzo_compress E in_buf in_len out_buf out_len type s =
     (let ((lzo_ret, out1, lzo_len), s1) = lzo_compress E in_buf in_len out_buf out_len s;
          ((zlib_ret, zb, zlib_len), s2) =
             zlib_deflate E in_buf in_len (zlib_buf s1) out_len s1;
          s3 = s2\<lparr>zlib_buf := zb\<rparr>;
          select_lzo = ((0, out1, lzo_len, UBIFS_COMPR_LZO), s3);
          select_zlib = ((0, memcpy out1 0 zb zlib_len, zlib_len, UBIFS_COMPR_ZLIB), s3)
      in if lzo_ret \<noteq> 0 \<and> zlib_ret \<noteq> 0 then ((- 1, out1, out_len, type), s3)
         else if lzo_ret = 0 \<and> zlib_ret = 0 then
           (if lzo_len \<le> zlib_len then select_lzo
            else let percent =
                   double_mul (double_div (double_of_nat zlib_len) (double_of_nat lzo_len)) 100
                 in if of_int (100 - favor_percent s3) < percent then select_lzo
                    else select_zlib)
         else if lzo_ret \<noteq> 0 then select_zlib
         else select_lzo)"

text \<open>\<^verbatim>\<open>compress_data\<close> returns the compression type used, the output buffer and \<^verbatim>\<open>*out_len\<close>.\<close>

definition compress_data ::
  "ext \<Rightarrow> byte list \<Rightarrow> nat \<Rightarrow> byte list \<Rightarrow> nat \<Rightarrow> int \<Rightarrow> state \<Rightarrow> (int \<times> byte list \<times> nat) \<times> state"
where
  "compress_data E in_buf in_len out_buf out_len type s =
     (if in_len < UBIFS_MIN_COMPR_LEN then
        (let (r, ob, ol) = no_compress in_buf in_len out_buf
         in ((UBIFS_COMPR_NONE, ob, ol), s))
      else
        let ((ret, ob, ol, type'), s') =
              (if favor_lzo s \<noteq> 0 then favor_lzo_compress E in_buf in_len out_buf out_len type s
               else if type = UBIFS_COMPR_LZO then
                 (let ((r, b, l), t) = lzo_compress E in_buf in_len out_buf out_len s
                  in ((r, b, l, type), t))
               else if type = UBIFS_COMPR_ZLIB then
                 (let ((r, b, l), t) = zlib_deflate E in_buf in_len out_buf out_len s
                  in ((r, b, l, type), t))
               else if type = UBIFS_COMPR_ZSTD then
                 (let ((r, b, l), t) = zstd_compress E in_buf in_len out_buf out_len s
                  in ((r, b, l, type), t))
               else if type = UBIFS_COMPR_NONE then ((1, out_buf, out_len, type), s)
               else ((1, out_buf, out_len, type), s\<lparr>errcnt := errcnt s + 1\<rparr>))
        in if ret \<noteq> 0 \<or> in_len \<le> ol then
             (let (r, ob', ol') = no_compress in_buf in_len ob
              in ((UBIFS_COMPR_NONE, ob', ol'), s'))
           else ((type', ob, ol), s'))"

subsection \<open>Preparing and writing nodes\<close>

definition node_image :: "ext \<Rightarrow> node \<Rightarrow> byte list" where
  "node_image E n = ch_bytes (node_ch n) @ ext_image E (node_body n)"

text \<open>
  Modelled from the spec: \<^verbatim>\<open>ubifs_prepare_node\<close>, a function of libubifs that is not among
  the sources. It fills the header: sets magic and len, assigns \<open>sqnum = ++max_sqnum\<close>, and
  computes the CRC over the node excluding the CRC field itself, which is bytes 4 to 7 of
  the common header.
\<close>

definition crc_covered :: "byte list \<Rightarrow> byte list" where
  "crc_covered img = take 4 img @ drop 8 img"

definition ubifs_prepare_node :: "ext \<Rightarrow> node \<Rightarrow> int \<Rightarrow> state \<Rightarrow> node \<times> state" where
  "ubifs_prepare_node E n len s =
     (let sq = max_sqnum s + 1;
          h = (node_ch n)\<lparr>ch_magic := UBIFS_NODE_MAGIC, ch_len := len, ch_sqnum := sq\<rparr>;
          crc = ext_crc32 E (crc_covered (take (nat len) (node_image E (n\<lparr>node_ch := h\<rparr>))))
      in (n\<lparr>node_ch := h\<lparr>ch_crc := crc\<rparr>\<rparr>, s\<lparr>max_sqnum := sq\<rparr>))"

text \<open>\<^verbatim>\<open>ubifs_pad(c, buf + off, pad)\<close>.\<close>

definition ubifs_pad :: "ext \<Rightarrow> byte list \<Rightarrow> int \<Rightarrow> int \<Rightarrow> byte list" where
  "ubifs_pad E buf off pad = memcpy buf (nat off) (ext_pad E (nat pad)) (nat pad)"

text \<open>
  Modelled from the spec: \<^verbatim>\<open>ubifs_leb_change\<close>, the target sink, which accepts a LEB number
  and a buffer; a write that succeeds replaces the image of that LEB.
\<close>

definition ubifs_leb_change :: "ext \<Rightarrow> int \<Rightarrow> byte list \<Rightarrow> int \<Rightarrow> state \<Rightarrow> nat \<times> state" where
  "ubifs_leb_change E lnum buf len s =
     (let img = take (nat len) buf; err = ext_leb_change E lnum img
      in if err \<noteq> 0 then (err, s) else (0, s\<lparr>target := (target s)(lnum \<mapsto> img)\<rparr>))"

definition write_empty_leb :: "ext \<Rightarrow> int \<Rightarrow> state \<Rightarrow> unit result" where
  "write_empty_leb E lnum s =
     (let s1 = s\<lparr>leb_buf := memset (leb_buf s) 0 0xff (nat (leb_size s))\<rparr>;
          (err, s2) = ubifs_leb_change E lnum (leb_buf s1) (leb_size s1) s1
      in if err \<noteq> 0 then (Inl (E_leb_change err), s2) else (Inr (), s2))"

text \<open>\<^verbatim>\<open>write_node\<close> prepares the caller's node in place, so it returns the node as well.\<close>

definition write_node :: "ext \<Rightarrow> node \<Rightarrow> int \<Rightarrow> int \<Rightarrow> state \<Rightarrow> node \<times> unit result" where
  "write_node E n len lnum s =
     (let alen = ALIGN len 8; wlen = ALIGN len (min_io_size s);
          (n', s1) = ubifs_prepare_node E n len s;
          b1 = memcpy (leb_buf s1) 0 (node_image E n') (nat len);
          b2 = memset b1 (nat len) 0xff (nat (alen - len));
          b3 = ubifs_pad E b2 alen (wlen - alen);
          b4 = memset b3 (nat wlen) 0xff (nat (leb_size s1 - wlen));
          s2 = s1\<lparr>leb_buf := b4\<rparr>;
          (err, s3) = ubifs_leb_change E lnum (leb_buf s2) (leb_size s2) s2
      in (n', if err \<noteq> 0 then (Inl (E_leb_change err), s3) else (Inr (), s3)))"

text \<open>
  The image that \<open>write_node\<close> builds for a node whose length is a multiple of 8 and whose
  layout has that length: the node, the padding up to the minimum I/O unit, and 0xFF up
  to the end of the LEB.
\<close>

definition leb_image_of :: "ext \<Rightarrow> state \<Rightarrow> node \<Rightarrow> int \<Rightarrow> byte list" where
  "leb_image_of E s n len =
     node_image E n @ ext_pad E (nat (ALIGN len (min_io_size s) - len)) @
     replicate (nat (leb_size s - ALIGN len (min_io_size s))) 0xff"

subsection \<open>LEB properties\<close>

definition calc_dark :: "state \<Rightarrow> int \<Rightarrow> int" where
  "calc_dark s spc =
     (if spc < dark_wm s then spc
      else if spc - dark_wm s < MIN_WRITE_SZ then spc - MIN_WRITE_SZ
      else dark_wm s)"

definition set_lprops :: "int \<Rightarrow> int \<Rightarrow> int \<Rightarrow> state \<Rightarrow> state" where
  "set_lprops lnum offs flags s =
     (let i = lnum - main_first s;
          a = max (min_io_size s) 8;
          free = leb_size s - ALIGN offs a;
          dirty = leb_size s - free - ALIGN offs 8;
          s1 = (if i < main_lebs s
                then s\<lparr>lpt := (lpt s)[nat i := \<lparr>lp_free = free, lp_dirty = dirty, lp_flags = flags\<rparr>]\<rparr>
                else s);
          s2 = s1\<lparr>lst_total_free := lst_total_free s1 + free,
                  lst_total_dirty := lst_total_dirty s1 + dirty\<rparr>
      in if flags AND LPROPS_INDEX \<noteq> 0 then s2\<lparr>lst_idx_lebs := lst_idx_lebs s2 + 1\<rparr>
         else
           let spc = free + dirty;
               s3 = (if spc < dead_wm s2 then s2\<lparr>lst_total_dead := lst_total_dead s2 + spc\<rparr>
                     else s2\<lparr>lst_total_dark := lst_total_dark s2 + calc_dark s2 spc\<rparr>)
           in s3\<lparr>lst_total_used := lst_total_used s3 + (leb_size s3 - spc)\<rparr>)"

subsection \<open>The write head\<close>

definition add_to_index ::
  "ubifs_key \<Rightarrow> string option \<Rightarrow> nat \<Rightarrow> int \<Rightarrow> int \<Rightarrow> int \<Rightarrow> byte list \<Rightarrow> state \<Rightarrow> state"
where
  "add_to_index key name name_len lnum offs len hash s =
     s\<lparr>idx_list := idx_list s @
        [\<lparr>ie_key = key, ie_name = name, ie_name_len = name_len, ie_lnum = lnum,
          ie_offs = offs, ie_len = len, ie_hash = take (hash_len s) hash\<rparr>]\<rparr>"

definition flush_nodes :: "ext \<Rightarrow> state \<Rightarrow> unit result" where
  "flush_nodes E s =
     (if head_offs s = 0 then (Inr (), s)
      else
        let len = ALIGN (head_offs s) (min_io_size s);
            b1 = ubifs_pad E (leb_buf s) (head_offs s) (len - head_offs s);
            b2 = memset b1 (nat len) 0xff (nat (leb_size s - len));
            s1 = s\<lparr>leb_buf := b2\<rparr>;
            (err, s2) = ubifs_leb_change E (head_lnum s1) (leb_buf s1) (leb_size s1) s1
        in if err \<noteq> 0 then (Inl (E_leb_change err), s2)
           else
             let s3 = set_lprops (head_lnum s2) (head_offs s2) (head_flags s2) s2
             in (Inr (), s3\<lparr>head_lnum := head_lnum s3 + 1, head_offs := 0\<rparr>))"

text \<open>\<^verbatim>\<open>reserve_space\<close> returns \<^verbatim>\<open>*lnum\<close> and \<^verbatim>\<open>*offs\<close>.\<close>

definition reserve_space :: "ext \<Rightarrow> int \<Rightarrow> state \<Rightarrow> (int \<times> int) result" where
  "reserve_space E len s =
     (case (if leb_size s - head_offs s < len then flush_nodes E s else (Inr (), s)) of
        (Inl e, s1) \<Rightarrow> (Inl e, s1)
      | (Inr _, s1) \<Rightarrow>
          (Inr (head_lnum s1, head_offs s1), s1\<lparr>head_offs := head_offs s1 + ALIGN len 8\<rparr>))"

text \<open>\<^verbatim>\<open>key_type\<close> of \<^verbatim>\<open>key.h\<close> reads the type out of a key.\<close>

definition add_node ::
  "ext \<Rightarrow> ubifs_key \<Rightarrow> string option \<Rightarrow> nat \<Rightarrow> node \<Rightarrow> int \<Rightarrow> state \<Rightarrow> unit result"
where
  "add_node E key name name_len n len s =
     (let type = key_type key;
          name_check =
            (if type = UBIFS_DENT_KEY \<or> type = UBIFS_XENT_KEY
             then (if name = None then Some E_dent_without_name else None)
             else (if name \<noteq> None then Some E_name_for_non_dent else None))
      in case name_check of
           Some e \<Rightarrow> (Inl e, s)
         | None \<Rightarrow>
             let (n', s1) = ubifs_prepare_node E n len s
             in case reserve_space E len s1 of
                  (Inl e, s2) \<Rightarrow> (Inl e, s2)
                | (Inr (lnum, offs), s2) \<Rightarrow>
                    let b1 = memcpy (leb_buf s2) (nat offs) (node_image E n') (nat len);
                        b2 = memset b1 (nat (offs + len)) 0xff (nat (ALIGN len 8 - len));
                        s3 = s2\<lparr>leb_buf := b2\<rparr>;
                        hash = ext_node_hash E (take (nat len) (node_image E n'));
                        s4 = add_to_index key name name_len lnum offs len hash s3
                    in (Inr (), s4\<lparr>emitted := emitted s4 @ [n']\<rparr>))"

subsection \<open>The master node and the superblock\<close>

definition UBIFS_SIG_NODE_SZ :: int where "UBIFS_SIG_NODE_SZ = 64"

text \<open>The node that \<^verbatim>\<open>write_master\<close> fills in before it writes it.\<close>

definition write_master_mst :: "state \<Rightarrow> node" where
  "write_master_mst s =
     \<lparr>node_ch = zero_ch\<lparr>ch_node_type := UBIFS_MST_NODE\<rparr>,
      node_body = Mst_body
        \<lparr>mst_highest_inum = highest_inum s,
         mst_cmt_no = 0,
         mst_flags = UBIFS_MST_NO_ORPHS,
         mst_log_lnum = UBIFS_LOG_LNUM,
         mst_root_lnum = zroot_lnum s,
         mst_root_offs = zroot_offs s,
         mst_root_len = zroot_len s,
         mst_gc_lnum = gc_lnum s,
         mst_ihead_lnum = ihead_lnum s,
         mst_ihead_offs = ihead_offs s,
         mst_index_size = bi_old_idx_sz s,
         mst_total_free = lst_total_free s,
         mst_total_dirty = lst_total_dirty s,
         mst_total_used = lst_total_used s,
         mst_total_dead = lst_total_dead s,
         mst_total_dark = lst_total_dark s,
         mst_lpt_lnum = lpt_lnum s,
         mst_lpt_offs = lpt_offs s,
         mst_nhead_lnum = nhead_lnum s,
         mst_nhead_offs = nhead_offs s,
         mst_ltab_lnum = ltab_lnum s,
         mst_ltab_offs = ltab_offs s,
         mst_lsave_lnum = lsave_lnum s,
         mst_lsave_offs = lsave_offs s,
         mst_lscan_lnum = lscan_lnum s,
         mst_empty_lebs = lst_empty_lebs s,
         mst_idx_lebs = lst_idx_lebs s,
         mst_leb_cnt = leb_cnt s,
         mst_hash_root_idx = (if authenticated s then take (hash_len s) (root_idx_hash s) else []),
         mst_hash_lpt = (if authenticated s then take (hash_len s) (lpt_hash s) else [])\<rparr>\<rparr>"

definition write_master :: "ext \<Rightarrow> state \<Rightarrow> unit result" where
  "write_master E s =
     (let mst = write_master_mst s;
          (mst1, r1) = write_node E mst UBIFS_MST_NODE_SZ UBIFS_MST_LNUM s
      in case r1 of
           (Inl e, s1) \<Rightarrow> (Inl e, s1)
         | (Inr _, s1) \<Rightarrow>
             let (mst2, r2) = write_node E mst1 UBIFS_MST_NODE_SZ (UBIFS_MST_LNUM + 1) s1
             in case r2 of
                  (Inl e, s2) \<Rightarrow> (Inl e, s2)
                | (Inr _, s2) \<Rightarrow>
                    let (err, h) = ext_mst_hash E (node_image E mst2)
                    in if err \<noteq> 0 then (Inl (E_mst_hash err), s2)
                       else (Inr (), s2\<lparr>mst_hash := h\<rparr>))"

definition ubifs_format_version :: "state \<Rightarrow> int" where
  "ubifs_format_version s = (if double_hash s \<noteq> 0 \<or> encrypted s \<noteq> 0 then 5 else 4)"

text \<open>The superblock node that \<^verbatim>\<open>write_super\<close> fills in before it prepares and writes it.\<close>

definition write_super_sup :: "ext \<Rightarrow> state \<Rightarrow> ubifs_sb_node" where
  "write_super_sup E s =
     \<lparr>sup_key_hash = key_hash_type s,
      sup_flags =
        (if big_lpt s \<noteq> 0 then UBIFS_FLG_BIGLPT else 0) OR
        (if space_fixup s \<noteq> 0 then UBIFS_FLG_SPACE_FIXUP else 0) OR
        (if double_hash s \<noteq> 0 then UBIFS_FLG_DOUBLE_HASH else 0) OR
        (if encrypted s \<noteq> 0 then UBIFS_FLG_ENCRYPTION else 0) OR
        (if authenticated s then UBIFS_FLG_AUTHENTICATION else 0),
      sup_min_io_size = min_io_size s,
      sup_leb_size = leb_size s,
      sup_leb_cnt = leb_cnt s,
      sup_max_leb_cnt = max_leb_cnt s,
      sup_max_bud_bytes = max_bud_bytes s,
      sup_log_lebs = log_lebs s,
      sup_lpt_lebs = lpt_lebs s,
      sup_orph_lebs = orph_lebs s,
      sup_jhead_cnt = jhead_cnt s,
      sup_fanout = fanout s,
      sup_lsave_cnt = lsave_cnt s,
      sup_fmt_version = ubifs_format_version s,
      sup_default_compr = default_compr s,
      sup_rp_size = rp_size s,
      sup_time_gran = DEFAULT_TIME_GRAN,
      sup_uuid = ext_uuid E,
      sup_hash_algo = hash_algo s,
      sup_hash_mst = (if authenticated s then take (hash_len s) (mst_hash s) else [])\<rparr>"

text \<open>
  \<^verbatim>\<open>write_super\<close>: the buffer is a zeroed LEB; the superblock node is prepared, signed, and
  the signature node behind it prepared with padding to the minimum I/O unit.
\<close>

definition write_super :: "ext \<Rightarrow> state \<Rightarrow> unit result" where
  "write_super E s =
     (let sup = \<lparr>node_ch = zero_ch\<lparr>ch_node_type := UBIFS_SB_NODE\<rparr>,
                 node_body = Sb_body (write_super_sup E s)\<rparr>;
          (sup', s1) = ubifs_prepare_node E sup UBIFS_SB_NODE_SZ s;
          (err, sig) = ext_sign_superblock E (node_image E sup')
      in if err \<noteq> 0 then (Inl (E_sign err), s1)
         else
           let sig_len = (case node_body sig of Sig_body l _ \<Rightarrow> int l | _ \<Rightarrow> 0);
               (sig', s2) = ubifs_prepare_node E sig (UBIFS_SIG_NODE_SZ + sig_len) s1;
               alen = ALIGN (UBIFS_SIG_NODE_SZ + sig_len) 8;
               len = ALIGN alen (min_io_size s2);
               b0 = replicate (nat (leb_size s2)) 0;
               b1 = memcpy b0 0 (node_image E sup') (nat UBIFS_SB_NODE_SZ);
               b2 = memcpy b1 (nat UBIFS_SB_NODE_SZ) (node_image E sig')
                      (nat (UBIFS_SIG_NODE_SZ + sig_len));
               b3 = ubifs_pad E b2 (UBIFS_SB_NODE_SZ + alen) (len - alen);
               b4 = memset b3 (nat (UBIFS_SB_NODE_SZ + len)) 0xff
                      (nat (leb_size s2 - (UBIFS_SB_NODE_SZ + len)));
               (err', s3) = ubifs_leb_change E UBIFS_SB_LNUM b4 (leb_size s2) s2
           in if err' \<noteq> 0 then (Inl (E_leb_change err'), s3) else (Inr (), s3))"

subsection \<open>Sorting the index list\<close>

text \<open>
  Modelled from the spec: \<^verbatim>\<open>keys_cmp\<close> of \<^verbatim>\<open>key.h\<close>, which is not among the sources. Keys are
  ordered lexicographically as (inum, type, hash or block), each compared numerically.
\<close>

definition keys_cmp :: "ubifs_key \<Rightarrow> ubifs_key \<Rightarrow> int" where
  "keys_cmp k1 k2 =
     (if key_inum k1 < key_inum k2 then - 1
      else if key_inum k2 < key_inum k1 then 1
      else if key_type k1 < key_type k2 then - 1
      else if key_type k2 < key_type k1 then 1
      else if key_hash k1 < key_hash k2 then - 1
      else if key_hash k2 < key_hash k1 then 1
      else 0)"

text \<open>
  \<^verbatim>\<open>memcmp\<close> compares bytes as \<^verbatim>\<open>unsigned char\<close>; the C standard fixes the sign of the result,
  here the difference of the first two bytes that differ.
\<close>

fun memcmp :: "string \<Rightarrow> string \<Rightarrow> nat \<Rightarrow> int" where
  "memcmp (x # xs) (y # ys) (Suc n) =
     (if x = y then memcmp xs ys n else int (of_char x) - int (of_char y))"
| "memcmp xs ys n = 0"

text \<open>The bytes behind \<^verbatim>\<open>e->name\<close>; the pointer is \<^verbatim>\<open>NULL\<close> for a node without a name.\<close>

definition ie_name_bytes :: "idx_entry \<Rightarrow> string" where
  "ie_name_bytes e = (case ie_name e of None \<Rightarrow> [] | Some n \<Rightarrow> n)"

definition namecmp :: "idx_entry \<Rightarrow> idx_entry \<Rightarrow> int" where
  "namecmp e1 e2 =
     (let len1 = ie_name_len e1; len2 = ie_name_len e2;
          clen = (if len1 < len2 then len1 else len2);
          cmp = memcmp (ie_name_bytes e1) (ie_name_bytes e2) clen
      in if cmp \<noteq> 0 then cmp
         else if len1 < len2 then - 1 else 1)"

definition cmp_idx :: "idx_entry \<Rightarrow> idx_entry \<Rightarrow> int" where
  "cmp_idx e1 e2 =
     (let cmp = keys_cmp (ie_key e1) (ie_key e2)
      in if cmp \<noteq> 0 then cmp else namecmp e1 e2)"

text \<open>
  \<^verbatim>\<open>qsort\<close> is the C library's. The standard asks only that it order the array by the
  comparison function; it is modelled by a sort that inserts each element before the
  first one that the comparison function does not put before it.
\<close>

fun qsort_insert :: "('a \<Rightarrow> 'a \<Rightarrow> int) \<Rightarrow> 'a \<Rightarrow> 'a list \<Rightarrow> 'a list" where
  "qsort_insert cmp x [] = [x]"
| "qsort_insert cmp x (y # ys) =
     (if cmp x y \<le> 0 then x # y # ys else y # qsort_insert cmp x ys)"

definition qsort :: "('a \<Rightarrow> 'a \<Rightarrow> int) \<Rightarrow> 'a list \<Rightarrow> 'a list" where
  "qsort cmp xs = foldr (qsort_insert cmp) xs []"

text \<open>
  The first part of \<^verbatim>\<open>write_index\<close>, up to \<^verbatim>\<open>qsort\<close>: the head is reset for the index, the
  size of the pointer array is computed in \<^verbatim>\<open>size_t\<close> (64 bits, with its wrap-around) and
  checked, the list is copied into the array and the array sorted. It returns the array.
\<close>

definition write_index_sort :: "state \<Rightarrow> idx_entry list result" where
  "write_index_sort s =
     (let s1 = s\<lparr>head_flags := LPROPS_INDEX\<rparr>;
          idx_cnt = length (idx_list s1);
          sz = (idx_cnt * 8) mod 2 ^ 64
      in if sz div 8 \<noteq> idx_cnt then (Inl E_index_too_big, s1)
         else (Inr (qsort cmp_idx (idx_list s1)), s1))"

text \<open>
  The order the spec names for the index leaves, in its words: by key, and for equal
  keys by lexicographic comparison of the raw name bytes.
\<close>

definition spec_idx_less :: "idx_entry \<Rightarrow> idx_entry \<Rightarrow> bool" where
  "spec_idx_less e1 e2 =
     (let k1 = ie_key e1; k2 = ie_key e2;
          n1 = map (of_char :: char \<Rightarrow> nat) (ie_name_bytes e1);
          n2 = map (of_char :: char \<Rightarrow> nat) (ie_name_bytes e2)
      in key_inum k1 < key_inum k2 \<or>
         key_inum k1 = key_inum k2 \<and>
           (key_type k1 < key_type k2 \<or>
            key_type k1 = key_type k2 \<and>
              (key_hash k1 < key_hash k2 \<or> key_hash k1 = key_hash k2 \<and> n1 < n2)))"

subsection \<open>Keys and sizes\<close>

text \<open>
  Modelled from the spec: the key builders of \<^verbatim>\<open>key.h\<close>. A key is made of the inode number,
  the key type and, by type, nothing, the hash of the name under the selected hash function
  (\<open>ext_key_hash\<close>), or the block number.
\<close>

definition ino_key_init :: "nat \<Rightarrow> ubifs_key" where
  "ino_key_init inum = \<lparr>key_inum = inum, key_type = UBIFS_INO_KEY, key_hash = 0\<rparr>"

definition dent_key_init :: "ext \<Rightarrow> nat \<Rightarrow> string \<Rightarrow> ubifs_key" where
  "dent_key_init E inum nm =
     \<lparr>key_inum = inum, key_type = UBIFS_DENT_KEY, key_hash = ext_key_hash E nm\<rparr>"

definition xent_key_init :: "ext \<Rightarrow> nat \<Rightarrow> string \<Rightarrow> ubifs_key" where
  "xent_key_init E inum nm =
     \<lparr>key_inum = inum, key_type = UBIFS_XENT_KEY, key_hash = ext_key_hash E nm\<rparr>"

definition data_key_init :: "nat \<Rightarrow> nat \<Rightarrow> ubifs_key" where
  "data_key_init inum block =
     \<lparr>key_inum = inum, key_type = UBIFS_DATA_KEY, key_hash = block mod 2 ^ 29\<rparr>"

text \<open>The macros \<^verbatim>\<open>CALC_DENT_SIZE\<close> and \<^verbatim>\<open>CALC_XATTR_BYTES\<close> of \<^verbatim>\<open>ubifs.h\<close>.\<close>

definition CALC_DENT_SIZE :: "nat \<Rightarrow> nat" where
  "CALC_DENT_SIZE name_len = nat (ALIGN (UBIFS_DENT_NODE_SZ + int name_len + 1) 8)"

definition CALC_XATTR_BYTES :: "nat \<Rightarrow> nat" where
  "CALC_XATTR_BYTES data_len = nat (ALIGN (UBIFS_INO_NODE_SZ + int data_len + 1) 8)"

definition byte_of_char :: "char \<Rightarrow> byte" where
  "byte_of_char c = of_nat (of_char c)"

definition char_of_byte :: "byte \<Rightarrow> char" where
  "char_of_byte b = char_of (unat b)"

definition le16 :: "nat \<Rightarrow> byte list" where
  "le16 n = [of_nat (n mod 256), of_nat (n div 256 mod 256)]"

subsection \<open>Extended attributes\<close>

text \<open>
  \<^verbatim>\<open>add_xattr\<close> updates the host inode it is given (which its caller has not written yet),
  so it returns it as well.
\<close>

definition add_xattr ::
  "ext \<Rightarrow> ubifs_ino_node \<Rightarrow> stat \<Rightarrow> nat \<Rightarrow> string \<Rightarrow> byte list \<Rightarrow> state \<Rightarrow>
     ubifs_ino_node \<times> unit result"
where
  "add_xattr E host_ino st inum name data s =
     (let nlen = length name; data_len = length data;
          host_ino' = host_ino
            \<lparr>ino_xattr_cnt := ino_xattr_cnt host_ino + 1,
             ino_xattr_size :=
               ino_xattr_size host_ino + CALC_DENT_SIZE nlen + CALC_XATTR_BYTES data_len,
             ino_xattr_names := ino_xattr_names host_ino + nlen\<rparr>;
          xkey = xent_key_init E inum name;
          len = UBIFS_XENT_NODE_SZ + int nlen + 1;
          inum' = highest_inum s + 1;
          s1 = s\<lparr>highest_inum := inum', max_sqnum := max_sqnum s + 1,
                 creat_sqnum := max_sqnum s + 1\<rparr>;
          xent = \<lparr>node_ch = zero_ch\<lparr>ch_node_type := UBIFS_XENT_NODE, ch_len := len\<rparr>,
                  node_body = Dent_body
                    \<lparr>dent_key = xkey, dent_inum = inum', dent_type = UBIFS_ITYPE_REG,
                     dent_nlen = nlen, dent_cookie = 0, dent_name = name\<rparr>\<rparr>
      in case add_node E xkey (Some name) nlen xent len s1 of
           (Inl e, s2) \<Rightarrow> (host_ino', (Inl e, s2))
         | (Inr _, s2) \<Rightarrow>
             let nkey = ino_key_init inum';
                 ino = \<lparr>node_ch = zero_ch\<lparr>ch_node_type := UBIFS_INO_NODE\<rparr>,
                        node_body = Ino_body
                          \<lparr>ino_key = nkey, ino_creat_sqnum = creat_sqnum s2,
                           ino_size = int data_len, ino_nlink = 1,
                           ino_atime_sec = st_atime st, ino_ctime_sec = st_ctime st,
                           ino_mtime_sec = st_mtime st, ino_uid = st_uid st,
                           ino_gid = st_gid st, ino_mode = S_IFREG,
                           ino_flags = UBIFS_XATTR_FL, ino_compr_type = default_compr s2,
                           ino_data_len = data_len, ino_xattr_cnt = 0, ino_xattr_size = 0,
                           ino_xattr_names = 0, ino_data = data\<rparr>\<rparr>
             in (host_ino', add_node E nkey None 0 ino (UBIFS_INO_NODE_SZ + int data_len) s2))"

text \<open>The loop of \<^verbatim>\<open>inode_add_xattr\<close> over the attribute names.\<close>

fun inode_add_xattr_loop ::
  "ext \<Rightarrow> (string \<times> byte list option) list \<Rightarrow> ubifs_ino_node \<Rightarrow> stat \<Rightarrow> nat \<Rightarrow> state \<Rightarrow>
     ubifs_ino_node \<times> unit result"
where
  "inode_add_xattr_loop E [] host_ino st inum s = (host_ino, (Inr (), s))"
| "inode_add_xattr_loop E ((name, v) # rest) host_ino st inum s =
     (case v of
        None \<Rightarrow> (host_ino, (Inl E_lgetxattr, s))
      | Some attrbuf \<Rightarrow>
          if name = ''user.image-inode-number'' then
            (if inum \<noteq> ext_strtoull E attrbuf then (host_ino, (Inl E_inum_mismatch, s))
             else inode_add_xattr_loop E rest host_ino st inum s)
          else if name = ''security.selinux'' \<and> selinux s then
            inode_add_xattr_loop E rest host_ino st inum s
          else
            (case add_xattr E host_ino st inum name attrbuf s of
               (h', (Inl e, s')) \<Rightarrow> (h', (Inl e, s'))
             | (h', (Inr _, s')) \<Rightarrow> inode_add_xattr_loop E rest h' st inum s'))"

definition inode_add_xattr ::
  "ext \<Rightarrow> hpath \<Rightarrow> ubifs_ino_node \<Rightarrow> stat \<Rightarrow> nat \<Rightarrow> state \<Rightarrow> ubifs_ino_node \<times> unit result"
where
  "inode_add_xattr E hp host_ino st inum s =
     (case hp_xattrs hp of
        LX_none \<Rightarrow> (host_ino, (Inr (), s))
      | LX_fail \<Rightarrow> (host_ino, (Inl E_llistxattr, s))
      | LX_names names again_ok \<Rightarrow>
          if names = [] then (host_ino, (Inr (), s))
          else if \<not> again_ok then (host_ino, (Inl E_llistxattr, s))
          else inode_add_xattr_loop E names host_ino st inum s)"

definition inode_add_selinux_xattr ::
  "ext \<Rightarrow> hpath \<Rightarrow> ubifs_ino_node \<Rightarrow> stat \<Rightarrow> nat \<Rightarrow> state \<Rightarrow> ubifs_ino_node \<times> unit result"
where
  "inode_add_selinux_xattr E hp host_ino st inum s =
     (if \<not> selinux s then (host_ino, (Inr (), s))
      else add_xattr E host_ino st inum ''security.selinux'' (hp_secontext hp @ [0]) s)"

text \<open>\<^verbatim>\<open>UBIFS_XATTR_NAME_ENCRYPTION_CONTEXT\<close> is the name \<^verbatim>\<open>"c"\<close>.\<close>

definition set_fscrypt_context ::
  "ext \<Rightarrow> ubifs_ino_node \<Rightarrow> nat \<Rightarrow> stat \<Rightarrow> fscrypt_context \<Rightarrow> state \<Rightarrow>
     ubifs_ino_node \<times> unit result"
where
  "set_fscrypt_context E host_ino inum host_st fctx s =
     add_xattr E host_ino host_st inum ''c'' fctx s"

text \<open>
  \<^verbatim>\<open>encrypt_symlink\<close> returns the bytes it has put at \<^verbatim>\<open>dst\<close> (their number is its return
  value), or nothing when \<^verbatim>\<open>encrypt_path\<close> fails. \<^verbatim>\<open>struct fscrypt_symlink_data\<close> is a 16-bit
  length and the encrypted path, three bytes when the path is one byte.
\<close>

definition encrypt_symlink :: "ext \<Rightarrow> byte list \<Rightarrow> fscrypt_context \<Rightarrow> byte list option" where
  "encrypt_symlink E data fctx =
     (let link_disk_len = 3 + ext_fname_encrypted_size E fctx (length data)
      in case ext_encrypt_path E fctx (map char_of_byte data) UBIFS_MAX_INO_DATA of
           None \<Rightarrow> None
         | Some outbuf \<Rightarrow>
             let sd = take link_disk_len
                        (le16 (length outbuf) @ map byte_of_char outbuf @
                         replicate link_disk_len 0)
             in Some (sd[link_disk_len - 1 := 0]))"

subsection \<open>Inodes\<close>

definition add_inode ::
  "ext \<Rightarrow> stat \<Rightarrow> nat \<Rightarrow> byte list \<Rightarrow> int \<Rightarrow> hpath option \<Rightarrow> fscrypt_context option \<Rightarrow> state \<Rightarrow>
     unit result"
where
  "add_inode E st inum data flags xattr_path fctx s =
     (let use_flags =
            (if default_compr s \<noteq> UBIFS_COMPR_NONE then UBIFS_COMPR_FL else 0) OR
            (if flags AND FS_COMPR_FL \<noteq> 0 then UBIFS_COMPR_FL else 0) OR
            (if flags AND FS_SYNC_FL \<noteq> 0 then UBIFS_SYNC_FL else 0) OR
            (if flags AND FS_IMMUTABLE_FL \<noteq> 0 then UBIFS_IMMUTABLE_FL else 0) OR
            (if flags AND FS_APPEND_FL \<noteq> 0 then UBIFS_APPEND_FL else 0) OR
            (if flags AND FS_DIRSYNC_FL \<noteq> 0 \<and> S_ISDIR (st_mode st) then UBIFS_DIRSYNC_FL
             else 0) OR
            (if fctx \<noteq> None then UBIFS_CRYPT_FL else 0);
          key = ino_key_init inum;
          ino0 = \<lparr>ino_key = key, ino_creat_sqnum = creat_sqnum s, ino_size = st_size st,
                  ino_nlink = st_nlink st, ino_atime_sec = st_atime st,
                  ino_ctime_sec = st_ctime st, ino_mtime_sec = st_mtime st,
                  ino_uid = st_uid st, ino_gid = st_gid st, ino_mode = st_mode st,
                  ino_flags = use_flags, ino_compr_type = default_compr s, ino_data_len = 0,
                  ino_xattr_cnt = 0, ino_xattr_size = 0, ino_xattr_names = 0, ino_data = []\<rparr>;
          stored =
            (if data = [] then Inr []
             else case fctx of
                    None \<Rightarrow> Inr data
                  | Some f \<Rightarrow>
                      if \<not> S_ISLNK (st_mode st) then Inl E_expected_symlink
                      else (case encrypt_symlink E data f of
                              None \<Rightarrow> Inl E_encrypt
                            | Some d \<Rightarrow> Inr d))
      in case stored of
           Inl e \<Rightarrow> (Inl e, s)
         | Inr d \<Rightarrow>
             let ino1 = ino0\<lparr>ino_data := d, ino_data_len := length d\<rparr>;
                 len = UBIFS_INO_NODE_SZ + int (length d);
                 with_xattrs =
                   (case xattr_path of
                      None \<Rightarrow> (ino1, (Inr (), s))
                    | Some hp \<Rightarrow>
                        (case inode_add_selinux_xattr E hp ino1 st inum s of
                           (i, (Inl e, s1)) \<Rightarrow> (i, (Inl e, s1))
                         | (i, (Inr _, s1)) \<Rightarrow> inode_add_xattr E hp i st inum s1))
             in case with_xattrs of
                  (i, (Inl e, s2)) \<Rightarrow> (Inl e, s2)
                | (i2, (Inr _, s2)) \<Rightarrow>
                    (case (case fctx of
                             None \<Rightarrow> (i2, (Inr (), s2))
                           | Some f \<Rightarrow> set_fscrypt_context E i2 inum st f s2) of
                       (i, (Inl e, s3)) \<Rightarrow> (Inl e, s3)
                     | (i3, (Inr _, s3)) \<Rightarrow>
                         add_node E key None 0
                           \<lparr>node_ch = zero_ch\<lparr>ch_node_type := UBIFS_INO_NODE\<rparr>,
                            node_body = Ino_body i3\<rparr> len s3))"

definition add_dir_inode ::
  "ext \<Rightarrow> hpath option \<Rightarrow> nat \<Rightarrow> int \<Rightarrow> nat \<Rightarrow> stat \<Rightarrow> fscrypt_context option \<Rightarrow> state \<Rightarrow>
     unit result"
where
  "add_dir_inode E dir inum size' nlink st fctx s =
     (let st' = st\<lparr>st_size := size', st_nlink := nlink\<rparr>
      in case dir of
           None \<Rightarrow> add_inode E st' inum [] 0 None fctx s
         | Some hp \<Rightarrow>
             if \<not> hp_dirfd_ok hp then (Inl E_dirfd, s)
             else add_inode E st' inum []
                    (case hp_fsflags hp of None \<Rightarrow> 0 | Some f \<Rightarrow> f) (Some hp) fctx s)"

text \<open>\<^verbatim>\<open>makedev(major(st_rdev), minor(st_rdev))\<close> is \<^verbatim>\<open>st_rdev\<close> again.\<close>

definition add_dev_inode :: "ext \<Rightarrow> hpath \<Rightarrow> stat \<Rightarrow> nat \<Rightarrow> int \<Rightarrow> state \<Rightarrow> unit result" where
  "add_dev_inode E hp st inum flags s =
     add_inode E st inum (le64 (of_nat (st_rdev st))) flags (Some hp) None s"

definition add_symlink_inode ::
  "ext \<Rightarrow> hpath \<Rightarrow> stat \<Rightarrow> nat \<Rightarrow> int \<Rightarrow> fscrypt_context option \<Rightarrow> state \<Rightarrow> unit result"
where
  "add_symlink_inode E hp st inum flags fctx s =
     (case hp_readlink hp of
        None \<Rightarrow> (Inl E_readlink, s)
      | Some link \<Rightarrow>
          let buf = take (UBIFS_MAX_INO_DATA + 1) link
          in if length buf = 0 then (Inl E_readlink, s)
             else if UBIFS_MAX_INO_DATA < length buf then (Inl E_symlink_too_long, s)
             else add_inode E st inum buf flags (Some hp) fctx s)"

subsection \<open>Directory entries\<close>

definition set_dent_cookie :: "ext \<Rightarrow> nat \<Rightarrow> string \<Rightarrow> state \<Rightarrow> 32 word" where
  "set_dent_cookie E dir_inum name s =
     (if double_hash s \<noteq> 0 then ext_rand_cookie E dir_inum name else 0)"

text \<open>\<^verbatim>\<open>add_dent_node\<close> returns \<^verbatim>\<open>*kname_len\<close>, the length of the name as stored.\<close>

definition add_dent_node ::
  "ext \<Rightarrow> nat \<Rightarrow> string \<Rightarrow> nat \<Rightarrow> nat \<Rightarrow> fscrypt_context option \<Rightarrow> state \<Rightarrow> nat result"
where
  "add_dent_node E dir_inum name inum type fctx s =
     (case (case fctx of
              None \<Rightarrow> Some name
            | Some f \<Rightarrow>
                ext_encrypt_path E f name
                  (if type = UBIFS_ITYPE_LNK then UBIFS_MAX_INO_DATA else UBIFS_MAX_NLEN)) of
        None \<Rightarrow> (Inl E_encrypt, s)
      | Some kname \<Rightarrow>
          let kname_len = length kname;
              key = dent_key_init E dir_inum kname;
              len = UBIFS_DENT_NODE_SZ + int kname_len + 1;
              dent = \<lparr>node_ch = zero_ch\<lparr>ch_node_type := UBIFS_DENT_NODE\<rparr>,
                      node_body = Dent_body
                        \<lparr>dent_key = key, dent_inum = inum, dent_type = type,
                         dent_nlen = kname_len,
                         dent_cookie = set_dent_cookie E dir_inum name s,
                         dent_name = kname\<rparr>\<rparr>
          in case add_node E key (Some kname) kname_len dent len s of
               (Inl e, s') \<Rightarrow> (Inl e, s')
             | (Inr _, s') \<Rightarrow> (Inr kname_len, s'))"

subsection \<open>Link counting\<close>

fun find_mapping :: "nat \<Rightarrow> nat \<Rightarrow> inum_mapping list \<Rightarrow> nat option" where
  "find_mapping dev inum [] = None"
| "find_mapping dev inum (im # ims) =
     (if im_dev im = dev \<and> im_inum im = inum then Some 0
      else map_option Suc (find_mapping dev inum ims))"

definition zero_stat :: stat where
  "zero_stat = \<lparr>st_dev = 0, st_ino = 0, st_mode = 0, st_nlink = 0, st_uid = 0, st_gid = 0,
     st_rdev = 0, st_size = 0, st_atime = 0, st_ctime = 0, st_mtime = 0\<rparr>"

definition no_hpath :: hpath where
  "no_hpath = \<lparr>hp_open_ok = False, hp_fsflags = None, hp_close_ok = False, hp_data = [],
     hp_read_err = None, hp_readlink = None, hp_xattrs = LX_none, hp_secontext = [],
     hp_lsetxattr_ok = False, hp_dirfd_ok = False\<rparr>"

text \<open>
  \<^verbatim>\<open>lookup_inum_mapping\<close> returns a pointer into the table: here the bucket and the place in
  its chain. A new mapping is put at the head of the chain; \<^verbatim>\<open>malloc\<close> leaves its path name
  and its \<^verbatim>\<open>stat\<close> unset (blank here) and the caller sets them before anything reads them.
\<close>

definition lookup_inum_mapping :: "nat \<Rightarrow> nat \<Rightarrow> state \<Rightarrow> (nat \<times> nat) \<times> state" where
  "lookup_inum_mapping dev inum s =
     (let k = inum mod HASH_TABLE_SIZE
      in case find_mapping dev inum (hash_table s k) of
           Some j \<Rightarrow> ((k, j), s)
         | None \<Rightarrow>
             let im = \<lparr>im_dev = dev, im_inum = inum, im_use_inum = 0, im_use_nlink = 0,
                       im_path_name = [], im_host = no_hpath, im_st = zero_stat\<rparr>
             in ((k, 0), s\<lparr>hash_table := (hash_table s)(k := im # hash_table s k)\<rparr>))"

subsection \<open>Files\<close>

definition all_zero :: "byte list \<Rightarrow> bool" where
  "all_zero buf = list_all (\<lambda>b. b = 0) buf"

text \<open>
  One turn of the loop of \<^verbatim>\<open>add_file\<close> for a block that is not all zero: the data node is
  made, compressed, encrypted and added. The output buffer is the data area of the node
  buffer, \<^verbatim>\<open>UBIFS_BLOCK_SIZE * WORST_COMPR_FACTOR\<close> bytes.
\<close>

definition add_file_block ::
  "ext \<Rightarrow> nat \<Rightarrow> int \<Rightarrow> fscrypt_context option \<Rightarrow> byte list \<Rightarrow> nat \<Rightarrow> state \<Rightarrow> unit result"
where
  "add_file_block E inum flags fctx buf block_no s =
     (let bytes_read = length buf;
          key = data_key_init inum block_no;
          out_len = UBIFS_BLOCK_SIZE * 4;
          use_compr =
            (if default_compr s = UBIFS_COMPR_NONE \<and> encrypted s = 0 \<and> flags AND FS_COMPR_FL \<noteq> 0
             then UBIFS_COMPR_LZO else default_compr s);
          ((compr_type, ob, ol), s1) =
            compress_data E buf bytes_read (replicate out_len 0) out_len use_compr s;
          dn = \<lparr>dn_key = key, dn_size = bytes_read, dn_compr_type = compr_type,
                dn_compr_size = 0, dn_data = take ol ob\<rparr>
      in case (case fctx of
                 None \<Rightarrow> Some dn
               | Some f \<Rightarrow> ext_encrypt_data_node E f block_no dn ol) of
           None \<Rightarrow> (Inl E_encrypt, s1)
         | Some dn' \<Rightarrow>
             add_node E key None 0
               \<lparr>node_ch = zero_ch\<lparr>ch_node_type := UBIFS_DATA_NODE\<rparr>, node_body = Data_body dn'\<rparr>
               (UBIFS_DATA_NODE_SZ + int (length (dn_data dn'))) s1)"

text \<open>
  The loop of \<^verbatim>\<open>add_file\<close> over the blocks of the file, on what is left to read; it returns
  the file size it has counted. \<open>hp_read_err\<close> names the block at which \<^verbatim>\<open>read\<close> fails. A
  block shorter than \<^verbatim>\<open>UBIFS_BLOCK_SIZE\<close> is one that \<^verbatim>\<open>read\<close> ended with 0, the last.
\<close>

function add_file_loop ::
  "ext \<Rightarrow> hpath \<Rightarrow> nat \<Rightarrow> int \<Rightarrow> fscrypt_context option \<Rightarrow> byte list \<Rightarrow> nat \<Rightarrow> nat \<Rightarrow> state \<Rightarrow>
     nat result"
where
  "add_file_loop E hp inum flags fctx rest block_no file_size s =
     (if hp_read_err hp = Some block_no then (Inl E_read, s)
      else
        let buf = take UBIFS_BLOCK_SIZE rest; bytes_read = length buf
        in if bytes_read = 0 then (Inr file_size, s)
           else if all_zero buf then
             (if bytes_read = UBIFS_BLOCK_SIZE
              then add_file_loop E hp inum flags fctx (drop UBIFS_BLOCK_SIZE rest)
                     (block_no + 1) (file_size + bytes_read) s
              else (Inr (file_size + bytes_read), s))
           else
             (case add_file_block E inum flags fctx buf block_no s of
                (Inl e, s') \<Rightarrow> (Inl e, s')
              | (Inr _, s') \<Rightarrow>
                  if bytes_read = UBIFS_BLOCK_SIZE
                  then add_file_loop E hp inum flags fctx (drop UBIFS_BLOCK_SIZE rest)
                         (block_no + 1) (file_size + bytes_read) s'
                  else (Inr (file_size + bytes_read), s')))"
  by pat_completeness auto
termination
  by (relation "measure (\<lambda>(E, hp, inum, flags, fctx, rest, block_no, file_size, s). length rest)")
    (auto simp: UBIFS_BLOCK_SIZE_def)

definition add_file ::
  "ext \<Rightarrow> hpath \<Rightarrow> stat \<Rightarrow> nat \<Rightarrow> int \<Rightarrow> fscrypt_context option \<Rightarrow> state \<Rightarrow> unit result"
where
  "add_file E hp st inum flags fctx s =
     (if \<not> hp_open_ok hp then (Inl E_open, s)
      else case add_file_loop E hp inum flags fctx (hp_data hp) 0 0 s of
             (Inl e, s') \<Rightarrow> (Inl e, s')
           | (Inr file_size, s') \<Rightarrow>
               if \<not> hp_close_ok hp then (Inl E_close, s')
               else if int file_size \<noteq> st_size st then (Inl E_size_changed, s')
               else add_inode E st inum [] flags (Some hp) fctx s')"

text \<open>
  \<^verbatim>\<open>add_non_dir\<close> returns \<^verbatim>\<open>*inum\<close> and \<^verbatim>\<open>*type\<close>. \<open>hp\<close> is what the host answers for
  \<open>path_name\<close>. The link count the function stores into the caller's \<^verbatim>\<open>stat\<close> is used for
  the inode it writes and by no caller afterwards.
\<close>

definition add_non_dir ::
  "ext \<Rightarrow> string \<Rightarrow> hpath \<Rightarrow> nat \<Rightarrow> nat \<Rightarrow> stat \<Rightarrow> fscrypt_context option \<Rightarrow> state \<Rightarrow>
     (nat \<times> nat) result"
where
  "add_non_dir E path_name hp inum nlink st fctx s =
     (let m = st_mode st;
          kind =
            (if S_ISREG m then
               (if \<not> hp_open_ok hp then Inl E_open
                else if \<not> hp_close_ok hp then Inl E_close
                else Inr (case hp_fsflags hp of None \<Rightarrow> 0 | Some f \<Rightarrow> f, UBIFS_ITYPE_REG))
             else if S_ISCHR m then Inr (0, UBIFS_ITYPE_CHR)
             else if S_ISBLK m then Inr (0, UBIFS_ITYPE_BLK)
             else if S_ISLNK m then Inr (0, UBIFS_ITYPE_LNK)
             else if S_ISSOCK m then Inr (0, UBIFS_ITYPE_SOCK)
             else if S_ISFIFO m then Inr (0, UBIFS_ITYPE_FIFO)
             else Inl E_unknown_type)
      in case kind of
           Inl e \<Rightarrow> (Inl e, s)
         | Inr (flags, type) \<Rightarrow>
             if nlink = 0 \<and> 1 < st_nlink st then
               (let ((k, j), s1) = lookup_inum_mapping (st_dev st) (st_ino st) s;
                    im = hash_table s1 k ! j
                in if im_use_nlink im = 0 then
                     (let im' = im\<lparr>im_use_inum := inum, im_use_nlink := 1,
                                   im_path_name := path_name, im_host := hp, im_st := st\<rparr>
                      in (Inr (inum, type),
                          s1\<lparr>hash_table := (hash_table s1)(k := (hash_table s1 k)[j := im'])\<rparr>))
                   else
                     (let im' = im\<lparr>im_use_nlink := im_use_nlink im + 1, im_st := st\<rparr>
                      in (Inr (im_use_inum im, type),
                          s1\<lparr>hash_table := (hash_table s1)(k := (hash_table s1 k)[j := im']),
                             highest_inum := highest_inum s1 - 1\<rparr>)))
             else
               (let st' = st\<lparr>st_nlink := (if nlink \<noteq> 0 then nlink else 1)\<rparr>;
                    s1 = s\<lparr>max_sqnum := max_sqnum s + 1, creat_sqnum := max_sqnum s + 1\<rparr>;
                    r = (if S_ISREG m then add_file E hp st' inum flags fctx s1
                         else if S_ISCHR m then add_dev_inode E hp st' inum flags s1
                         else if S_ISBLK m then add_dev_inode E hp st' inum flags s1
                         else if S_ISLNK m then add_symlink_inode E hp st' inum flags fctx s1
                         else if S_ISSOCK m then add_inode E st' inum [] flags None None s1
                         else if S_ISFIFO m then add_inode E st' inum [] flags None None s1
                         else (Inl E_unknown_type, s1))
                in case r of
                     (Inl e, s2) \<Rightarrow> (Inl e, s2)
                   | (Inr _, s2) \<Rightarrow> (Inr (inum, type), s2)))"

definition create_inum_attr :: "hpath \<Rightarrow> nat \<Rightarrow> state \<Rightarrow> unit result" where
  "create_inum_attr hp inum s =
     (if do_create_inum_attr s = 0 then (Inr (), s)
      else if hp_lsetxattr_ok hp then (Inr (), s)
      else (Inl E_inum_attr, s))"

text \<open>\<^verbatim>\<open>make_path\<close>; the directory name is never empty.\<close>

definition make_path :: "string \<Rightarrow> string \<Rightarrow> string" where
  "make_path dir name =
     dir @ (if dir \<noteq> [] \<and> last dir = CHR ''/'' then [] else ''/'') @ name"

subsection \<open>The walk over the source tree\<close>

text \<open>
  What \<^verbatim>\<open>add_directory\<close> does with an entry once its inode number and type are known: the
  inode number attribute and the directory entry; it returns the new size of the
  directory.
\<close>

definition add_entry_dent ::
  "ext \<Rightarrow> hpath \<Rightarrow> nat \<Rightarrow> string \<Rightarrow> nat \<Rightarrow> nat \<Rightarrow> fscrypt_context option \<Rightarrow> int \<Rightarrow> state \<Rightarrow>
     int result"
where
  "add_entry_dent E hp dir_inum name inum type fctx size' s =
     (case create_inum_attr hp inum s of
        (Inl e, s1) \<Rightarrow> (Inl e, s1)
      | (Inr _, s1) \<Rightarrow>
          (case add_dent_node E dir_inum name inum type fctx s1 of
             (Inl e, s2) \<Rightarrow> (Inl e, s2)
           | (Inr kname_len, s2) \<Rightarrow>
               (Inr (size' + ALIGN (UBIFS_DENT_NODE_SZ + int kname_len + 1) 8), s2)))"

text \<open>
  The start of a turn of the first loop of \<^verbatim>\<open>add_directory\<close>, for an entry of the host
  directory: \<^verbatim>\<open>lstat\<close>, the squashing of the owner, the attributes the device table
  overrides, the next inode number and the encryption context inherited from the directory.
\<close>

definition host_entry_stat ::
  "ext \<Rightarrow> string \<Rightarrow> string \<Rightarrow> stat option \<Rightarrow> name_htbl_element option \<Rightarrow>
     fscrypt_context option \<Rightarrow> state \<Rightarrow> (string \<times> stat \<times> nat \<times> fscrypt_context option) result"
where
  "host_entry_stat E dir_name dname lst nh_elt fctx s =
     (case lst of
        None \<Rightarrow> (Inl E_lstat, s)
      | Some st0 \<Rightarrow>
          let name = make_path dir_name dname;
              st1 = (if squash_owner s \<noteq> 0 then st0\<lparr>st_uid := 0, st_gid := 0\<rparr> else st0)
          in case (case nh_elt of
                     None \<Rightarrow> Some st1
                   | Some nh \<Rightarrow> ext_override_attributes E st1 nh) of
               None \<Rightarrow> (Inl E_override, s)
             | Some dent_st \<Rightarrow>
                 let inum = highest_inum s + 1
                 in (Inr (name, dent_st, inum, map_option (ext_inherit_fscrypt_context E) fctx),
                     s\<lparr>highest_inum := inum\<rparr>))"

text \<open>The same for a name that the device table adds: the \<^verbatim>\<open>stat\<close> is made up.\<close>

definition devtbl_entry_stat ::
  "ext \<Rightarrow> string \<Rightarrow> name_htbl_element \<Rightarrow> fscrypt_context option \<Rightarrow> state \<Rightarrow>
     (string \<times> stat \<times> nat \<times> fscrypt_context option) result"
where
  "devtbl_entry_stat E dir_name nh_elt fctx s =
     (if S_ISREG (nh_mode nh_elt) then (Inl E_devtable_regular, s)
      else
        let fake_st = (root_st s)
              \<lparr>st_uid := nh_uid nh_elt, st_gid := nh_gid nh_elt, st_mode := nh_mode nh_elt,
               st_rdev := nh_dev nh_elt, st_nlink := 1\<rparr>;
            name = make_path dir_name (nh_name nh_elt);
            inum = highest_inum s + 1
        in (Inr (name, fake_st, inum, map_option (ext_inherit_fscrypt_context E) fctx),
            s\<lparr>highest_inum := inum\<rparr>))"

text \<open>
  The end of \<^verbatim>\<open>add_directory\<close>: the directory's own inode, with the creation sequence number
  taken when the function was entered, and \<^verbatim>\<open>closedir\<close>.
\<close>

definition add_directory_inode ::
  "ext \<Rightarrow> hpath \<Rightarrow> bool \<Rightarrow> nat \<Rightarrow> int \<Rightarrow> nat \<Rightarrow> stat \<Rightarrow> bool \<Rightarrow> fscrypt_context option \<Rightarrow>
     nat \<Rightarrow> state \<Rightarrow> unit result"
where
  "add_directory_inode E hp closedir_ok dir_inum size' nlink st existing fctx dir_creat_sqnum s =
     (case add_dir_inode E (if existing then Some hp else None) dir_inum size' nlink st fctx
             (s\<lparr>creat_sqnum := dir_creat_sqnum\<rparr>) of
        (Inl e, s1) \<Rightarrow> (Inl e, s1)
      | (Inr _, s1) \<Rightarrow>
          if existing \<and> \<not> closedir_ok then (Inl E_closedir, s1) else (Inr (), s1))"

text \<open>
  \<^verbatim>\<open>add_directory\<close>, with its two loops as functions of their own: over the entries that
  \<^verbatim>\<open>readdir\<close> yields (\<open>add_host_entries\<close>) and over the names that the device table adds
  (\<open>add_devtbl_entries\<close>). A loop carries \<^verbatim>\<open>size\<close> and \<^verbatim>\<open>nlink\<close> and returns them. What both
  loops do with an entry, a directory or not, is \<open>add_entry\<close>: it returns the inode number
  and the type for the directory entry, and the link count of the directory. Every failure
  in \<^verbatim>\<open>add_directory\<close> ends in \<^verbatim>\<open>return -1\<close>; the model keeps the error that caused it.
\<close>

function (sequential) add_directory ::
  "ext \<Rightarrow> string \<Rightarrow> hnode \<Rightarrow> nat \<Rightarrow> stat \<Rightarrow> bool \<Rightarrow> fscrypt_context option \<Rightarrow> state \<Rightarrow>
     unit result"
and add_host_entries ::
  "ext \<Rightarrow> string \<Rightarrow> hdirent list \<Rightarrow> bool \<Rightarrow> nat \<Rightarrow> fscrypt_context option \<Rightarrow> int \<Rightarrow> nat \<Rightarrow>
     state \<Rightarrow> (int \<times> nat) result"
and add_devtbl_entries ::
  "ext \<Rightarrow> string \<Rightarrow> hdevent list \<Rightarrow> nat \<Rightarrow> fscrypt_context option \<Rightarrow> int \<Rightarrow> nat \<Rightarrow> state \<Rightarrow>
     (int \<times> nat) result"
and add_entry ::
  "ext \<Rightarrow> string \<Rightarrow> hnode \<Rightarrow> nat \<Rightarrow> stat \<Rightarrow> bool \<Rightarrow> fscrypt_context option \<Rightarrow> nat \<Rightarrow> state \<Rightarrow>
     (nat \<times> nat \<times> nat) result"
where
  "add_directory E dir_name (HNode hp opendir_ok entries readdir_ok closedir_ok devtbl)
       dir_inum st existing fctx s =
     (let s0 = s\<lparr>max_sqnum := max_sqnum s + 1\<rparr>
      in if existing \<and> \<not> opendir_ok then (Inl E_opendir, s0)
         else
           case (if existing
                 then add_host_entries E dir_name entries readdir_ok dir_inum fctx
                        UBIFS_INO_NODE_SZ 2 s0
                 else (Inr (UBIFS_INO_NODE_SZ, 2), s0)) of
             (Inl e, s1) \<Rightarrow> (Inl e, s1)
           | (Inr (size1, nlink1), s1) \<Rightarrow>
               (case add_devtbl_entries E dir_name devtbl dir_inum fctx size1 nlink1 s1 of
                  (Inl e, s2) \<Rightarrow> (Inl e, s2)
                | (Inr (size2, nlink2), s2) \<Rightarrow>
                    add_directory_inode E hp closedir_ok dir_inum size2 nlink2 st existing fctx
                      (max_sqnum s + 1) s2))"
| "add_host_entries E dir_name [] readdir_ok dir_inum fctx size' nlink s =
     (if readdir_ok then (Inr (size', nlink), s) else (Inl E_readdir, s))"
| "add_host_entries E dir_name (HDirent dname lst nh_elt child # entries) readdir_ok
       dir_inum fctx size' nlink s =
     (if dname = ''.'' \<or> dname = ''..''
      then add_host_entries E dir_name entries readdir_ok dir_inum fctx size' nlink s
      else
        case host_entry_stat E dir_name dname lst nh_elt fctx s of
          (Inl e, s1) \<Rightarrow> (Inl e, s1)
        | (Inr (name, dent_st, inum, new_fctx), s1) \<Rightarrow>
            (case add_entry E name child inum dent_st True new_fctx nlink s1 of
               (Inl e, s2) \<Rightarrow> (Inl e, s2)
             | (Inr (inum', type, nlink'), s2) \<Rightarrow>
                 (case add_entry_dent E (h_path child) dir_inum dname inum' type fctx size' s2 of
                    (Inl e, s3) \<Rightarrow> (Inl e, s3)
                  | (Inr size'', s3) \<Rightarrow>
                      add_host_entries E dir_name entries readdir_ok dir_inum fctx
                        size'' nlink' s3)))"
| "add_devtbl_entries E dir_name [] dir_inum fctx size' nlink s = (Inr (size', nlink), s)"
| "add_devtbl_entries E dir_name (HDevent nh_elt child # devtbl) dir_inum fctx size' nlink s =
     (case devtbl_entry_stat E dir_name nh_elt fctx s of
        (Inl e, s1) \<Rightarrow> (Inl e, s1)
      | (Inr (name, fake_st, inum, new_fctx), s1) \<Rightarrow>
          (case add_entry E name child inum fake_st False new_fctx nlink s1 of
             (Inl e, s2) \<Rightarrow> (Inl e, s2)
           | (Inr (inum', type, nlink'), s2) \<Rightarrow>
               (case add_entry_dent E (h_path child) dir_inum (nh_name nh_elt) inum' type fctx
                       size' s2 of
                  (Inl e, s3) \<Rightarrow> (Inl e, s3)
                | (Inr size'', s3) \<Rightarrow>
                    add_devtbl_entries E dir_name devtbl dir_inum fctx size'' nlink' s3)))"
| "add_entry E name child inum st existing fctx nlink s =
     (if S_ISDIR (st_mode st) then
        (case add_directory E name child inum st existing fctx s of
           (Inl e, s') \<Rightarrow> (Inl e, s')
         | (Inr _, s') \<Rightarrow> (Inr (inum, UBIFS_ITYPE_DIR, nlink + 1), s'))
      else
        (case add_non_dir E name (h_path child) inum 0 st fctx s of
           (Inl e, s') \<Rightarrow> (Inl e, s')
         | (Inr (inum', type), s') \<Rightarrow> (Inr (inum', type, nlink), s')))"
  by pat_completeness auto
termination
  by (relation "measure (\<lambda>x. case x of
          Inl (Inl (E, dir_name, h, r)) \<Rightarrow> 2 * size h
        | Inl (Inr (E, dir_name, es, r)) \<Rightarrow> 2 * size_list size es
        | Inr (Inl (E, dir_name, ds, r)) \<Rightarrow> 2 * size_list size ds
        | Inr (Inr (E, name, h, r)) \<Rightarrow> 2 * size h + 1)")
    simp_all

text \<open>
  \<^verbatim>\<open>add_multi_linked_files\<close> walks the chains of the hash table, bucket by bucket. Each call
  of \<^verbatim>\<open>add_non_dir\<close> is given the link count that was counted, which is not 0 for a mapping
  that \<^verbatim>\<open>add_non_dir\<close> has made, so no call touches the table and the chains can be read
  before the walk.
\<close>

fun add_mapped_files :: "ext \<Rightarrow> inum_mapping list \<Rightarrow> state \<Rightarrow> unit result" where
  "add_mapped_files E [] s = (Inr (), s)"
| "add_mapped_files E (im # ims) s =
     (case add_non_dir E (im_path_name im) (im_host im) (im_use_inum im) (im_use_nlink im)
             (im_st im) None s of
        (Inl e, s') \<Rightarrow> (Inl e, s')
      | (Inr _, s') \<Rightarrow> add_mapped_files E ims s')"

definition add_multi_linked_files :: "ext \<Rightarrow> state \<Rightarrow> unit result" where
  "add_multi_linked_files E s =
     add_mapped_files E (concat (map (hash_table s) [0..<HASH_TABLE_SIZE])) s"

text \<open>
  \<^verbatim>\<open>write_data\<close>. \<open>root_dir\<close> is the root directory given on the command line, if one was;
  \<open>root_stat\<close> is the answer of \<^verbatim>\<open>stat\<close> for it, \<open>root_nh\<close> the element of the device table for
  the root itself, \<open>now\<close> the time, \<open>h\<close> the source tree. The link count and size that
  \<^verbatim>\<open>add_dir_inode\<close> stores into \<^verbatim>\<open>root_st\<close> at the very end of the walk are read by nothing
  afterwards and are left out.
\<close>

definition write_data ::
  "ext \<Rightarrow> string option \<Rightarrow> stat option \<Rightarrow> name_htbl_element option \<Rightarrow> int \<Rightarrow> hnode \<Rightarrow>
     fscrypt_context option \<Rightarrow> state \<Rightarrow> unit result"
where
  "write_data E root_dir root_stat root_nh now h root_fctx s =
     (case (case root_dir of
              Some r \<Rightarrow>
                (case root_stat of
                   None \<Rightarrow> Inl E_bad_root
                 | Some st \<Rightarrow>
                     Inr (if squash_owner s \<noteq> 0 then st\<lparr>st_uid := 0, st_gid := 0\<rparr> else st))
            | None \<Rightarrow>
                Inr ((root_st s)\<lparr>st_mtime := now, st_atime := now, st_ctime := now,
                       st_mode := 0x4000 OR 0x1ED\<rparr>)) of
        Inl e \<Rightarrow> (Inl e, s)
      | Inr st1 \<Rightarrow>
          (case (case root_nh of
                   None \<Rightarrow> Some st1
                 | Some nh \<Rightarrow> ext_override_attributes E st1 nh) of
             None \<Rightarrow> (Inl E_override, s\<lparr>root_st := st1\<rparr>)
           | Some st2 \<Rightarrow>
               (case create_inum_attr (h_path h) UBIFS_ROOT_INO
                       (s\<lparr>root_st := st2, head_flags := 0\<rparr>) of
                  (Inl e, s1) \<Rightarrow> (Inl e, s1)
                | (Inr _, s1) \<Rightarrow>
                    (case add_directory E (case root_dir of Some r \<Rightarrow> r | None \<Rightarrow> []) h
                            UBIFS_ROOT_INO (root_st s1) (root_dir \<noteq> None) root_fctx s1 of
                       (Inl e, s2) \<Rightarrow> (Inl e, s2)
                     | (Inr _, s2) \<Rightarrow>
                         (case add_multi_linked_files E s2 of
                            (Inl e, s3) \<Rightarrow> (Inl e, s3)
                          | (Inr _, s3) \<Rightarrow> flush_nodes E s3)))))"

subsection \<open>Reading the log of emitted nodes\<close>

text \<open>
  The nodes that \<open>add_node\<close> has added between two states, and among them the directory
  entry nodes of a directory: those of node type \<open>UBIFS_DENT_NODE\<close> whose key holds the
  inode number of the directory. The size the spec names for a directory is summed over
  them, and its subdirectories are those of type \<open>UBIFS_ITYPE_DIR\<close>.
\<close>

definition emitted_since :: "state \<Rightarrow> state \<Rightarrow> node list" where
  "emitted_since s s' = drop (length (emitted s)) (emitted s')"

definition dent_of :: "node \<Rightarrow> ubifs_dent_node option" where
  "dent_of n =
     (if ch_node_type (node_ch n) = UBIFS_DENT_NODE
      then (case node_body n of Dent_body d \<Rightarrow> Some d | _ \<Rightarrow> None)
      else None)"

definition dir_dents :: "nat \<Rightarrow> node list \<Rightarrow> ubifs_dent_node list" where
  "dir_dents dir ns =
     List.map_filter
       (\<lambda>n. case dent_of n of
               Some d \<Rightarrow> if key_inum (dent_key d) = dir then Some d else None
             | None \<Rightarrow> None) ns"

definition dents_size :: "ubifs_dent_node list \<Rightarrow> int" where
  "dents_size ds =
     sum_list (map (\<lambda>d. ALIGN (UBIFS_DENT_NODE_SZ + int (dent_nlen d) + 1) 8) ds)"

definition subdir_count :: "ubifs_dent_node list \<Rightarrow> nat" where
  "subdir_count ds = length (filter (\<lambda>d. dent_type d = UBIFS_ITYPE_DIR) ds)"

text \<open>
  A step of the walk that adds no directory entry node and does not lower the inode
  counter.
\<close>

definition quiet_step :: "state \<Rightarrow> state \<Rightarrow> bool" where
  "quiet_step s s' \<longleftrightarrow>
     highest_inum s \<le> highest_inum s' \<and>
     (\<exists>ns. emitted s' = emitted s @ ns \<and> (\<forall>n \<in> set ns. dent_of n = None))"

subsection \<open>An instance of the library functions and a small image geometry\<close>

text \<open>
  Modelled from the spec: the CRC of \<^verbatim>\<open>lib/libcrc32.c\<close>, which is not among the sources:
  CRC-32, reflected, polynomial \<^verbatim>\<open>0xEDB88320\<close>, started from \<^verbatim>\<open>UBIFS_CRC32_INIT\<close> (all ones).
\<close>

definition crc32_step :: "32 word \<Rightarrow> 32 word" where
  "crc32_step c = (if bit c 0 then drop_bit 1 c XOR 0xEDB88320 else drop_bit 1 c)"

definition crc32_byte :: "32 word \<Rightarrow> byte \<Rightarrow> 32 word" where
  "crc32_byte c b = (crc32_step ^^ 8) (c XOR ucast b)"

definition crc32 :: "byte list \<Rightarrow> 32 word" where
  "crc32 bs = foldl crc32_byte 0xFFFFFFFF bs"

text \<open>
  The layout of \<^verbatim>\<open>struct ubifs_mst_node\<close> behind the common header (\<^verbatim>\<open>ubifs-media.h\<close>): 488
  bytes, the three 64-byte hash fields and the padding included.
\<close>

definition hash_field :: "byte list \<Rightarrow> byte list" where
  "hash_field h = take 64 (h @ replicate 64 0)"

definition mst_body_bytes :: "ubifs_mst_node \<Rightarrow> byte list" where
  "mst_body_bytes m =
     le64 (of_nat (mst_highest_inum m)) @ le64 (of_nat (mst_cmt_no m)) @
     le32 (word_of_int (mst_flags m)) @ le32 (word_of_int (mst_log_lnum m)) @
     le32 (word_of_int (mst_root_lnum m)) @ le32 (word_of_int (mst_root_offs m)) @
     le32 (word_of_int (mst_root_len m)) @ le32 (word_of_int (mst_gc_lnum m)) @
     le32 (word_of_int (mst_ihead_lnum m)) @ le32 (word_of_int (mst_ihead_offs m)) @
     le64 (of_nat (mst_index_size m)) @ le64 (word_of_int (mst_total_free m)) @
     le64 (word_of_int (mst_total_dirty m)) @ le64 (word_of_int (mst_total_used m)) @
     le64 (word_of_int (mst_total_dead m)) @ le64 (word_of_int (mst_total_dark m)) @
     le32 (word_of_int (mst_lpt_lnum m)) @ le32 (word_of_int (mst_lpt_offs m)) @
     le32 (word_of_int (mst_nhead_lnum m)) @ le32 (word_of_int (mst_nhead_offs m)) @
     le32 (word_of_int (mst_ltab_lnum m)) @ le32 (word_of_int (mst_ltab_offs m)) @
     le32 (word_of_int (mst_lsave_lnum m)) @ le32 (word_of_int (mst_lsave_offs m)) @
     le32 (word_of_int (mst_lscan_lnum m)) @ le32 (word_of_int (mst_empty_lebs m)) @
     le32 (word_of_int (mst_idx_lebs m)) @ le32 (word_of_int (mst_leb_cnt m)) @
     hash_field (mst_hash_root_idx m) @ hash_field (mst_hash_lpt m) @ replicate 64 0 @
     replicate 152 0"

text \<open>
  The layout of \<^verbatim>\<open>struct ubifs_sb_node\<close> behind the common header (\<^verbatim>\<open>ubifs-media.h\<close>): 4072
  bytes; \<^verbatim>\<open>fmt_version\<close> is at offset 56 of them, which is offset 80 of the node.
\<close>

definition sb_body_bytes :: "ubifs_sb_node \<Rightarrow> byte list" where
  "sb_body_bytes sb =
     [0, 0, word_of_int (sup_key_hash sb), 0] @
     le32 (word_of_int (sup_flags sb)) @ le32 (word_of_int (sup_min_io_size sb)) @
     le32 (word_of_int (sup_leb_size sb)) @ le32 (word_of_int (sup_leb_cnt sb)) @
     le32 (word_of_int (sup_max_leb_cnt sb)) @ le64 (word_of_int (sup_max_bud_bytes sb)) @
     le32 (word_of_int (sup_log_lebs sb)) @ le32 (word_of_int (sup_lpt_lebs sb)) @
     le32 (word_of_int (sup_orph_lebs sb)) @ le32 (word_of_int (sup_jhead_cnt sb)) @
     le32 (word_of_int (sup_fanout sb)) @ le32 (word_of_int (sup_lsave_cnt sb)) @
     le32 (word_of_int (sup_fmt_version sb)) @ le16 (nat (sup_default_compr sb)) @
     [0, 0] @ le32 0 @ le32 0 @ le64 (word_of_int (sup_rp_size sb)) @
     le32 (word_of_int (sup_time_gran sb)) @ take 16 (sup_uuid sb @ replicate 16 0) @
     le32 0 @ replicate 64 0 @ replicate 64 0 @ le16 (nat (sup_hash_algo sb)) @
     hash_field (sup_hash_mst sb) @ replicate 3774 0"

text \<open>
  For the other nodes the instance keeps the sizes of the layout and the bytes of
  variable length (inline data, names, file data), and leaves the fixed fields blank.
\<close>

definition plain_image :: "node_body \<Rightarrow> byte list" where
  "plain_image b =
     (case b of
        Ino_body i \<Rightarrow> replicate 136 0 @ ino_data i
      | Dent_body d \<Rightarrow> replicate 32 0 @ map byte_of_char (dent_name d) @ [0]
      | Data_body d \<Rightarrow> replicate 24 0 @ dn_data d
      | Mst_body m \<Rightarrow> mst_body_bytes m
      | Sb_body sb \<Rightarrow> sb_body_bytes sb
      | Sig_body l sg \<Rightarrow> replicate 40 0 @ sg)"

text \<open>
  The instance: the CRC above, a target that accepts every write, compression libraries
  that fail (so that data is stored as it is), no authentication, an identity in place of
  encryption, and a device table that overrides owner and mode.
\<close>

definition plain_ext :: ext where
  "plain_ext =
     \<lparr>ext_crc32 = crc32,
      ext_pad = (\<lambda>n. replicate n 0xCE),
      ext_image = plain_image,
      ext_leb_change = (\<lambda>lnum img. 0),
      ext_node_hash = (\<lambda>bs. []),
      ext_mst_hash = (\<lambda>bs. (0, [])),
      ext_sign_superblock = (\<lambda>bs. (0, \<lparr>node_ch = zero_ch, node_body = Sig_body 0 []\<rparr>)),
      ext_uuid = replicate 16 0,
      ext_lzo1x_999 = (\<lambda>bs cap. \<lparr>xr_ok = False, xr_out = [], xr_len = 0\<rparr>),
      ext_deflate = (\<lambda>bs cap. \<lparr>xr_ok = False, xr_out = [], xr_len = 0\<rparr>),
      ext_zstd = (\<lambda>bs cap. \<lparr>xr_ok = False, xr_out = [], xr_len = 0\<rparr>),
      ext_key_hash = (\<lambda>nm. length nm),
      ext_override_attributes =
        (\<lambda>st nh. Some (st\<lparr>st_uid := nh_uid nh, st_gid := nh_gid nh, st_mode := nh_mode nh\<rparr>)),
      ext_inherit_fscrypt_context = (\<lambda>f. f),
      ext_encrypt_path = (\<lambda>f nm max. Some nm),
      ext_encrypt_data_node = (\<lambda>f block dn n. Some dn),
      ext_fname_encrypted_size = (\<lambda>f n. n),
      ext_rand_cookie = (\<lambda>dir nm. 0),
      ext_strtoull = (\<lambda>bs. 0)\<rparr>"

text \<open>
  The state after \<^verbatim>\<open>init\<close> for a small geometry: a minimum I/O unit of 512 bytes, LEBs of
  2048 bytes, the main area from LEB 10, no compression, nothing written yet.
\<close>

definition small_state :: state where
  "small_state =
     \<lparr>min_io_size = 512, leb_size = 2048, max_leb_cnt = 100, leb_cnt = 0, main_first = 10,
      main_lebs = 90, log_lebs = 4, lpt_lebs = 2, orph_lebs = 1, jhead_cnt = 1, fanout = 8,
      lsave_cnt = 256, max_bud_bytes = 8192, rp_size = 0,
      default_compr = UBIFS_COMPR_NONE, favor_lzo = 0, favor_percent = 20,
      double_hash = 0, encrypted = 0, big_lpt = 0, space_fixup = 0, key_hash_type = 0,
      hash_algo = 0, hash_len = 0, authenticated = False, dead_wm = 512, dark_wm = 2048,
      highest_inum = UBIFS_FIRST_INO, max_sqnum = 0,
      zroot_lnum = 0, zroot_offs = 0, zroot_len = 0, gc_lnum = 0, ihead_lnum = 0,
      ihead_offs = 0, bi_old_idx_sz = 0, lpt_lnum = 0, lpt_offs = 0, nhead_lnum = 0,
      nhead_offs = 0, ltab_lnum = 0, ltab_offs = 0, lsave_lnum = 0, lsave_offs = 0,
      lscan_lnum = 0, lst_empty_lebs = 0, lst_idx_lebs = 0, lst_total_free = 0,
      lst_total_dirty = 0, lst_total_used = 0, lst_total_dead = 0, lst_total_dark = 0,
      lpt = replicate 90 \<lparr>lp_free = 0, lp_dirty = 0, lp_flags = 0\<rparr>,
      root_idx_hash = [], lpt_hash = [], mst_hash = [],
      head_lnum = 10, head_offs = 0, head_flags = 0, idx_list = [],
      leb_buf = replicate 2048 0xff, hash_table = (\<lambda>k. []), creat_sqnum = 0,
      squash_owner = 0, do_create_inum_attr = 0, selinux = False, root_st = zero_stat,
      errcnt = 0, zlib_buf = replicate 16384 0, target = (\<lambda>lnum. None), emitted = []\<rparr>"

text \<open>
  The same state over a geometry that \<^verbatim>\<open>validate_options\<close> accepts, that of a NAND flash
  with pages of 2048 bytes and LEBs of 62 pages; the watermarks are those \<^verbatim>\<open>init\<close> computes
  for it.
\<close>

definition nand_state :: state where
  "nand_state = small_state
     \<lparr>min_io_size := 2048, leb_size := 126976, max_leb_cnt := 2048, main_lebs := 2038,
      dead_wm := 2048, dark_wm := 6144,
      lpt := replicate 2038 \<lparr>lp_free = 0, lp_dirty = 0, lp_flags = 0\<rparr>,
      leb_buf := replicate 126976 0xff\<rparr>"

text \<open>The instance with a target that refuses every write (\<^verbatim>\<open>ENOSPC\<close>).\<close>

definition full_ext :: ext where
  "full_ext = plain_ext\<lparr>ext_leb_change := (\<lambda>lnum img. 28)\<rparr>"



text \<open>
  Index leaves as \<open>add_to_index\<close> makes them, and two index lists: one with a hash
  collision between two names of a directory, one with the same name twice in a directory.
\<close>

definition idx_leaf :: "ubifs_key \<Rightarrow> string option \<Rightarrow> int \<Rightarrow> idx_entry" where
  "idx_leaf k nm offs =
     \<lparr>ie_key = k, ie_name = nm,
      ie_name_len = (case nm of None \<Rightarrow> 0 | Some n \<Rightarrow> length n),
      ie_lnum = 10, ie_offs = offs, ie_len = 64, ie_hash = []\<rparr>"

definition collision_state :: state where
  "collision_state = small_state\<lparr>idx_list :=
     [idx_leaf (dent_key_init plain_ext 1 ''ba'') (Some ''ba'') 0,
      idx_leaf (ino_key_init 1) None 64,
      idx_leaf (dent_key_init plain_ext 1 ''ab'') (Some ''ab'') 128]\<rparr>"

definition duplicate_state :: state where
  "duplicate_state = small_state\<lparr>idx_list :=
     [idx_leaf (dent_key_init plain_ext 1 ''ab'') (Some ''ab'') 0,
      idx_leaf (dent_key_init plain_ext 1 ''ab'') (Some ''ab'') 64]\<rparr>"

section \<open>Properties\<close>

subsection \<open>Alignment and buffers\<close>

lemma and_not_mask_int: "(a::int) AND NOT (mask n) = a div 2 ^ n * 2 ^ n"
proof -
  have "a AND NOT (mask n) = push_bit n (drop_bit n a)"
    by (rule bit_eqI) (auto simp: bit_simps)
  then show ?thesis by (simp add: push_bit_eq_mult drop_bit_eq_div)
qed

text \<open>\<open>ALIGN x 8\<close> is \<open>x\<close> rounded up to a multiple of 8.\<close>

lemma ALIGN_8: "ALIGN x 8 = (x + 7) div 8 * 8"
  using and_not_mask_int [of "x + 7" 3] by (simp add: ALIGN_def mask_eq_exp_minus_1)

lemma ALIGN_pow2: "ALIGN x (2 ^ n) = (x + 2 ^ n - 1) div 2 ^ n * 2 ^ n"
  using and_not_mask_int [of "x + (2 ^ n - 1)" n]
  by (simp add: ALIGN_def mask_eq_exp_minus_1 algebra_simps)

lemma ALIGN_8_ge: "x \<le> ALIGN x 8"
  unfolding ALIGN_8 by presburger

lemma ALIGN_8_lt: "ALIGN x 8 < x + 8"
  unfolding ALIGN_8 by presburger

lemma length_buf_store:
  "off + length bytes \<le> length buf \<Longrightarrow> length (buf_store buf off bytes) = length buf"
  by (simp add: buf_store_def)

lemma take_buf_store:
  "n \<le> off \<Longrightarrow> off \<le> length buf \<Longrightarrow> take n (buf_store buf off bytes) = take n buf"
  by (simp add: buf_store_def)

lemma take_buf_store_below:
  "n \<le> off \<Longrightarrow> n \<le> length buf \<Longrightarrow> take n (buf_store buf off bytes) = take n buf"
  by (simp add: buf_store_def)

lemma length_buf_store_ge:
  "n \<le> off \<Longrightarrow> n \<le> length buf \<Longrightarrow> n \<le> length (buf_store buf off bytes)"
  by (simp add: buf_store_def)

lemma ALIGN_nonneg: "0 \<le> x \<Longrightarrow> 0 < a \<Longrightarrow> 0 \<le> ALIGN x a"
  by (simp add: ALIGN_def)

lemma length_le32 [simp]: "length (le32 w) = 4"
  by (simp add: le32_def)

lemma length_le64 [simp]: "length (le64 w) = 8"
  by (simp add: le64_def)

lemma length_le16 [simp]: "length (le16 w) = 2"
  by (simp add: le16_def)

lemma length_ch_bytes [simp]: "length (ch_bytes h) = 24"
  by (simp add: ch_bytes_def)

lemma take_prefix: "length xs = n \<Longrightarrow> take n (xs @ ys) = xs"
  by simp

text \<open>The image of a flushed LEB: the buffer up to the head, the padding, the fill.\<close>

lemma flush_image:
  assumes "off \<le> w" "w \<le> n" "n \<le> length buf" "length pad = w - off"
  shows "take n (buf_store (buf_store buf off (take (w - off) pad)) w (replicate (n - w) x)) =
    take off buf @ pad @ replicate (n - w) x"
proof -
  let ?b1 = "buf_store buf off (take (w - off) pad)"
  have b1: "?b1 = take off buf @ pad @ drop w buf"
    using assms by (simp add: buf_store_def)
  have l: "length (take off buf @ pad) = w"
    using assms by simp
  have "take w ?b1 = take off buf @ pad"
    unfolding b1 using l by (metis append.assoc append_eq_conv_conj)
  then have e: "buf_store ?b1 w (replicate (n - w) x) =
      (take off buf @ pad @ replicate (n - w) x) @ drop (w + (n - w)) ?b1"
    by (simp add: buf_store_def)
  have "length (take off buf @ pad @ replicate (n - w) x) = n"
    using assms by simp
  then have "take n ((take off buf @ pad @ replicate (n - w) x) @ drop (w + (n - w)) ?b1) =
      take off buf @ pad @ replicate (n - w) x"
    by (rule take_prefix)
  with e show ?thesis by (simp only:)
qed

lemma length_hash_field [simp]: "length (hash_field h) = 64"
  by (simp add: hash_field_def)

subsection \<open>Compression\<close>

text \<open>
  C10. For every input with \<open>in_len < UBIFS_MIN_COMPR_LEN\<close>, whatever the requested
  compression type and whatever the setting of \<open>favor_lzo\<close> in the state, \<open>compress_data\<close>
  compresses nothing: it returns \<open>UBIFS_COMPR_NONE\<close>, sets \<^verbatim>\<open>*out_len\<close> to \<open>in_len\<close>, leaves the
  input bytes at the start of the output buffer, and changes nothing else (no library is
  called, the error count stays).
\<close>

theorem compress_data_below_min_len:
  assumes "in_len < UBIFS_MIN_COMPR_LEN" and "in_len \<le> length in_buf"
  shows "\<exists>out_buf'.
           compress_data E in_buf in_len out_buf out_len type s =
             ((UBIFS_COMPR_NONE, out_buf', in_len), s) \<and>
           take in_len out_buf' = take in_len in_buf"
  using assms by (simp add: compress_data_def no_compress_def memcpy_def buf_store_def)

theorem compress_data_below_min_len_witness:
  "(3::nat) < UBIFS_MIN_COMPR_LEN \<and> 3 \<le> length [1, 2, 3 :: byte] \<and>
   (\<exists>out_buf'.
      compress_data plain_ext [1, 2, 3] 3 (replicate 8 0) 8 UBIFS_COMPR_LZO
          (small_state\<lparr>favor_lzo := 1\<rparr>) =
        ((UBIFS_COMPR_NONE, out_buf', 3), small_state\<lparr>favor_lzo := 1\<rparr>) \<and>
      take 3 out_buf' = take 3 [1, 2, 3])"
proof -
  have a: "(3::nat) < UBIFS_MIN_COMPR_LEN" by (simp add: UBIFS_MIN_COMPR_LEN_def)
  have b: "3 \<le> length [1, 2, 3 :: byte]" by simp
  from compress_data_below_min_len [OF a b] a b show ?thesis by blast
qed

subsection \<open>Double precision\<close>











subsection \<open>The choice between LZO and ZLIB\<close>








subsection \<open>Preparing a node\<close>

lemma prepare_node_body [simp]:
  "node_body (fst (ubifs_prepare_node E n len s)) = node_body n"
  by (simp add: ubifs_prepare_node_def Let_def)

lemma prepare_node_frame [simp]:
  "leb_size (snd (ubifs_prepare_node E n len s)) = leb_size s"
  "min_io_size (snd (ubifs_prepare_node E n len s)) = min_io_size s"
  "target (snd (ubifs_prepare_node E n len s)) = target s"
  by (simp_all add: ubifs_prepare_node_def Let_def)

lemma prepare_node_state:
  "snd (ubifs_prepare_node E n len s) = s\<lparr>max_sqnum := max_sqnum s + 1\<rparr>"
  by (simp add: ubifs_prepare_node_def Let_def)

text \<open>
  The header of a prepared node whose layout has the length \<open>len\<close>: the CRC covers the
  magic and everything behind the CRC field.
\<close>

lemma prepare_node_ch:
  assumes "24 + length (ext_image E (node_body n)) = nat len"
  shows "node_ch (fst (ubifs_prepare_node E n len s)) =
     \<lparr>ch_magic = UBIFS_NODE_MAGIC,
      ch_crc = ext_crc32 E (le32 UBIFS_NODE_MAGIC @ le64 (of_nat (max_sqnum s + 1)) @
        le32 (word_of_int len) @ [ch_node_type (node_ch n), ch_group_type (node_ch n), 0, 0] @
        ext_image E (node_body n)),
      ch_sqnum = max_sqnum s + 1, ch_len = len, ch_node_type = ch_node_type (node_ch n),
      ch_group_type = ch_group_type (node_ch n)\<rparr>"
  using assms
  by (simp add: ubifs_prepare_node_def Let_def node_image_def ch_bytes_def crc_covered_def)

subsection \<open>The write head\<close>

lemma set_lprops_head [simp]:
  "head_lnum (set_lprops l off f s) = head_lnum s"
  "head_offs (set_lprops l off f s) = head_offs s"
  "head_flags (set_lprops l off f s) = head_flags s"
  "leb_size (set_lprops l off f s) = leb_size s"
  by (simp_all add: set_lprops_def Let_def)

lemma leb_change_cases:
  "ubifs_leb_change E l b n s = (err, s') \<Longrightarrow>
     (err \<noteq> 0 \<and> s' = s) \<or> (err = 0 \<and> s' = s\<lparr>target := (target s)(l \<mapsto> take (nat n) b)\<rparr>)"
  by (auto simp: ubifs_leb_change_def Let_def split: if_splits)

lemma leb_change_head:
  assumes "ubifs_leb_change E l b n s = (err, s')"
  shows "head_lnum s' = head_lnum s" "head_offs s' = head_offs s"
    "head_flags s' = head_flags s" "leb_size s' = leb_size s"
  using leb_change_cases [OF assms] by auto

text \<open>What \<open>flush_nodes\<close> does to the head when the head offset is not 0.\<close>

lemma flush_nodes_nonzero:
  assumes "head_offs s \<noteq> 0" and "flush_nodes E s = (r, s')"
  shows "(\<exists>e. r = Inl e \<and> head_lnum s' = head_lnum s \<and> head_offs s' = head_offs s) \<or>
         (r = Inr () \<and> head_lnum s' = head_lnum s + 1 \<and> head_offs s' = 0)"
proof -
  define s1 where "s1 = s\<lparr>leb_buf := memset (ubifs_pad E (leb_buf s) (head_offs s)
      (ALIGN (head_offs s) (min_io_size s) - head_offs s))
      (nat (ALIGN (head_offs s) (min_io_size s))) 0xff
      (nat (leb_size s - ALIGN (head_offs s) (min_io_size s)))\<rparr>"
  obtain err s2 where lc:
    "ubifs_leb_change E (head_lnum s1) (leb_buf s1) (leb_size s1) s1 = (err, s2)"
    by (cases "ubifs_leb_change E (head_lnum s1) (leb_buf s1) (leb_size s1) s1")
  have h: "head_lnum s2 = head_lnum s" "head_offs s2 = head_offs s"
    using leb_change_head [OF lc] by (simp_all add: s1_def)
  show ?thesis
  proof (cases "err = 0")
    case True
    with assms lc have "r = Inr ()" and
      "s' = (set_lprops (head_lnum s2) (head_offs s2) (head_flags s2) s2)
         \<lparr>head_lnum := head_lnum (set_lprops (head_lnum s2) (head_offs s2) (head_flags s2) s2) + 1,
          head_offs := 0\<rparr>"
      by (simp_all add: flush_nodes_def Let_def s1_def)
    then show ?thesis using h by simp
  next
    case False
    with assms lc have "r = Inl (E_leb_change err)" and "s' = s2"
      by (simp_all add: flush_nodes_def Let_def s1_def)
    then show ?thesis using h by simp
  qed
qed

text \<open>
  C4, as the code has it. An explicit flush with a head offset other than 0 advances the
  head to \<open>(lnum + 1, 0)\<close> when the write to the target succeeds, and leaves the head where
  it is when the write fails. With a head offset of 0 the flush returns at once: nothing
  is written and the head stays at \<open>(lnum, 0)\<close>.
\<close>

theorem flush_nodes_head:
  "(head_offs s = 0 \<longrightarrow> flush_nodes E s = (Inr (), s)) \<and>
   (head_offs s \<noteq> 0 \<longrightarrow>
      (\<forall>s'. flush_nodes E s = (Inr (), s') \<longrightarrow>
         head_lnum s' = head_lnum s + 1 \<and> head_offs s' = 0) \<and>
      (\<forall>e s'. flush_nodes E s = (Inl e, s') \<longrightarrow>
         head_lnum s' = head_lnum s \<and> head_offs s' = head_offs s))"
proof (intro conjI impI allI)
  assume "head_offs s = 0"
  then show "flush_nodes E s = (Inr (), s)" by (simp add: flush_nodes_def)
next
  fix s' assume "head_offs s \<noteq> 0" "flush_nodes E s = (Inr (), s')"
  from flush_nodes_nonzero [OF this] show "head_lnum s' = head_lnum s + 1" "head_offs s' = 0"
    by auto
next
  fix e s' assume "head_offs s \<noteq> 0" "flush_nodes E s = (Inl e, s')"
  from flush_nodes_nonzero [OF this] show "head_lnum s' = head_lnum s" "head_offs s' = head_offs s"
    by auto
qed

lemma flush_small_state_24:
  "fst (flush_nodes plain_ext (small_state\<lparr>head_offs := 24\<rparr>)) = Inr ()"
  by (simp add: flush_nodes_def Let_def ubifs_leb_change_def plain_ext_def small_state_def
      split_beta)

theorem flush_nodes_head_witness:
  "head_offs (small_state\<lparr>head_offs := 24\<rparr>) \<noteq> 0 \<and>
   fst (flush_nodes plain_ext (small_state\<lparr>head_offs := 24\<rparr>)) = Inr () \<and>
   head_lnum (snd (flush_nodes plain_ext (small_state\<lparr>head_offs := 24\<rparr>))) =
     head_lnum (small_state\<lparr>head_offs := 24\<rparr>) + 1 \<and>
   head_offs (snd (flush_nodes plain_ext (small_state\<lparr>head_offs := 24\<rparr>))) = 0 \<and>
   head_offs small_state = 0 \<and>
   flush_nodes plain_ext small_state = (Inr (), small_state)"
proof -
  let ?w = "small_state\<lparr>head_offs := 24\<rparr>"
  have nz: "head_offs ?w \<noteq> 0" by simp
  have z: "head_offs small_state = 0" by (simp add: small_state_def)
  have ok: "flush_nodes plain_ext ?w = (Inr (), snd (flush_nodes plain_ext ?w))"
    using flush_small_state_24 by (metis prod.collapse)
  from flush_nodes_head [of ?w plain_ext] nz ok
  have "head_lnum (snd (flush_nodes plain_ext ?w)) = head_lnum ?w + 1 \<and>
        head_offs (snd (flush_nodes plain_ext ?w)) = 0"
    by blast
  moreover from flush_nodes_head [of small_state plain_ext] z
  have "flush_nodes plain_ext small_state = (Inr (), small_state)" by blast
  ultimately show ?thesis using nz z flush_small_state_24 by blast
qed

text \<open>
  The claim as the spec states it fails where it insists: with the head at offset 0, the
  flush does not move the head to the next LEB.
\<close>

theorem flush_nodes_at_offset_0_counterexample:
  "head_offs small_state = 0 \<and>
   head_lnum (snd (flush_nodes plain_ext small_state)) \<noteq> head_lnum small_state + 1"
  by (simp add: flush_nodes_def small_state_def)

text \<open>
  C5. A reservation of \<open>len\<close> bytes that fits (\<open>len \<le> leb_size - head_offs\<close>) returns the head
  position and advances the head offset by \<open>ALIGN len 8\<close>; nothing is written. One that does
  not fit calls \<open>flush_nodes\<close> first, and fails with its error if it fails. With the head
  at an offset other than 0, that flush pads the buffer from the head offset to the
  minimum I/O unit, fills the rest of the LEB with 0xFF and hands the LEB to the target
  under the head's LEB number. If the target refuses it, the reservation fails and the
  head stays. Otherwise the image is the new content of that LEB, the LEB properties of
  that LEB are recorded, and the call returns \<open>(lnum + 1, 0)\<close> with the head at
  \<open>(lnum + 1, ALIGN len 8)\<close>. With the head at offset 0 there is nothing to flush, and the
  call returns \<open>(lnum, 0)\<close>. For a head inside the buffer, the image written is the
  buffer up to the head offset, the padding, and 0xFF up to the LEB size.
\<close>

theorem reserve_space_head:
  "(len \<le> leb_size s - head_offs s \<longrightarrow>
      reserve_space E len s =
        (Inr (head_lnum s, head_offs s), s\<lparr>head_offs := head_offs s + ALIGN len 8\<rparr>)) \<and>
   (leb_size s - head_offs s < len \<longrightarrow>
      (\<forall>e s1. flush_nodes E s = (Inl e, s1) \<longrightarrow> reserve_space E len s = (Inl e, s1)) \<and>
      (\<forall>s1. flush_nodes E s = (Inr (), s1) \<longrightarrow>
         reserve_space E len s =
           (Inr (head_lnum s1, head_offs s1), s1\<lparr>head_offs := head_offs s1 + ALIGN len 8\<rparr>))) \<and>
   (leb_size s - head_offs s < len \<and> head_offs s \<noteq> 0 \<longrightarrow>
      (let wlen = ALIGN (head_offs s) (min_io_size s);
           buf = memset (ubifs_pad E (leb_buf s) (head_offs s) (wlen - head_offs s))
                   (nat wlen) 0xff (nat (leb_size s - wlen));
           img = take (nat (leb_size s)) buf;
           err = ext_leb_change E (head_lnum s) img
       in reserve_space E len s =
            (if err \<noteq> 0 then (Inl (E_leb_change err), s\<lparr>leb_buf := buf\<rparr>)
             else (Inr (head_lnum s + 1, 0),
                   (set_lprops (head_lnum s) (head_offs s) (head_flags s)
                      (s\<lparr>leb_buf := buf, target := (target s)(head_lnum s \<mapsto> img)\<rparr>))
                   \<lparr>head_lnum := head_lnum s + 1, head_offs := ALIGN len 8\<rparr>)) \<and>
          (0 < head_offs s \<and> head_offs s \<le> wlen \<and> wlen \<le> leb_size s \<and>
           nat (leb_size s) \<le> length (leb_buf s) \<and>
           length (ext_pad E (nat (wlen - head_offs s))) = nat (wlen - head_offs s) \<longrightarrow>
           img = take (nat (head_offs s)) (leb_buf s) @
                 ext_pad E (nat (wlen - head_offs s)) @
                 replicate (nat (leb_size s - wlen)) 0xff))) \<and>
   (leb_size s - head_offs s < len \<and> head_offs s = 0 \<longrightarrow>
      reserve_space E len s = (Inr (head_lnum s, 0), s\<lparr>head_offs := ALIGN len 8\<rparr>))"
proof (intro conjI impI allI)
  assume "len \<le> leb_size s - head_offs s"
  then show "reserve_space E len s =
      (Inr (head_lnum s, head_offs s), s\<lparr>head_offs := head_offs s + ALIGN len 8\<rparr>)"
    by (simp add: reserve_space_def)
next
  fix e s1 assume "leb_size s - head_offs s < len" "flush_nodes E s = (Inl e, s1)"
  then show "reserve_space E len s = (Inl e, s1)" by (simp add: reserve_space_def)
next
  fix s1 assume "leb_size s - head_offs s < len" "flush_nodes E s = (Inr (), s1)"
  then show "reserve_space E len s =
      (Inr (head_lnum s1, head_offs s1), s1\<lparr>head_offs := head_offs s1 + ALIGN len 8\<rparr>)"
    by (simp add: reserve_space_def)
next
  assume a: "leb_size s - head_offs s < len \<and> head_offs s \<noteq> 0"
  let ?wlen = "ALIGN (head_offs s) (min_io_size s)"
  let ?buf = "memset (ubifs_pad E (leb_buf s) (head_offs s) (?wlen - head_offs s))
                (nat ?wlen) 0xff (nat (leb_size s - ?wlen))"
  let ?img = "take (nat (leb_size s)) ?buf"
  let ?err = "ext_leb_change E (head_lnum s) ?img"
  have r: "reserve_space E len s =
      (if ?err \<noteq> 0 then (Inl (E_leb_change ?err), s\<lparr>leb_buf := ?buf\<rparr>)
       else (Inr (head_lnum s + 1, 0),
             (set_lprops (head_lnum s) (head_offs s) (head_flags s)
                (s\<lparr>leb_buf := ?buf, target := (target s)(head_lnum s \<mapsto> ?img)\<rparr>))
             \<lparr>head_lnum := head_lnum s + 1, head_offs := ALIGN len 8\<rparr>))"
    using a
    by (simp add: reserve_space_def flush_nodes_def Let_def ubifs_leb_change_def split_beta)
  have i: "?img = take (nat (head_offs s)) (leb_buf s) @
        ext_pad E (nat (?wlen - head_offs s)) @ replicate (nat (leb_size s - ?wlen)) 0xff"
    if w: "0 < head_offs s \<and> head_offs s \<le> ?wlen \<and> ?wlen \<le> leb_size s \<and>
        nat (leb_size s) \<le> length (leb_buf s) \<and>
        length (ext_pad E (nat (?wlen - head_offs s))) = nat (?wlen - head_offs s)"
  proof -
    have n: "nat ?wlen - nat (head_offs s) = nat (?wlen - head_offs s)"
      "nat (leb_size s) - nat ?wlen = nat (leb_size s - ?wlen)"
      using w by linarith+
    have o: "nat (head_offs s) \<le> nat ?wlen" "nat ?wlen \<le> nat (leb_size s)"
      using w by linarith+
    have p: "length (ext_pad E (nat (?wlen - head_offs s))) = nat ?wlen - nat (head_offs s)"
      using w n by simp
    have q: "nat (leb_size s) \<le> length (leb_buf s)" using w by blast
    have "take (nat (leb_size s))
        (buf_store (buf_store (leb_buf s) (nat (head_offs s))
           (take (nat ?wlen - nat (head_offs s)) (ext_pad E (nat (?wlen - head_offs s)))))
           (nat ?wlen) (replicate (nat (leb_size s) - nat ?wlen) 0xff)) =
        take (nat (head_offs s)) (leb_buf s) @ ext_pad E (nat (?wlen - head_offs s)) @
        replicate (nat (leb_size s) - nat ?wlen) 0xff"
      using o q p by (rule flush_image)
    then show ?thesis
      by (simp only: memset_def memcpy_def ubifs_pad_def n)
  qed
  show "let wlen = ALIGN (head_offs s) (min_io_size s);
           buf = memset (ubifs_pad E (leb_buf s) (head_offs s) (wlen - head_offs s))
                   (nat wlen) 0xff (nat (leb_size s - wlen));
           img = take (nat (leb_size s)) buf;
           err = ext_leb_change E (head_lnum s) img
       in reserve_space E len s =
            (if err \<noteq> 0 then (Inl (E_leb_change err), s\<lparr>leb_buf := buf\<rparr>)
             else (Inr (head_lnum s + 1, 0),
                   (set_lprops (head_lnum s) (head_offs s) (head_flags s)
                      (s\<lparr>leb_buf := buf, target := (target s)(head_lnum s \<mapsto> img)\<rparr>))
                   \<lparr>head_lnum := head_lnum s + 1, head_offs := ALIGN len 8\<rparr>)) \<and>
          (0 < head_offs s \<and> head_offs s \<le> wlen \<and> wlen \<le> leb_size s \<and>
           nat (leb_size s) \<le> length (leb_buf s) \<and>
           length (ext_pad E (nat (wlen - head_offs s))) = nat (wlen - head_offs s) \<longrightarrow>
           img = take (nat (head_offs s)) (leb_buf s) @
                 ext_pad E (nat (wlen - head_offs s)) @
                 replicate (nat (leb_size s - wlen)) 0xff)"
    unfolding Let_def using r i by blast
next
  assume "leb_size s - head_offs s < len \<and> head_offs s = 0"
  then show "reserve_space E len s = (Inr (head_lnum s, 0), s\<lparr>head_offs := ALIGN len 8\<rparr>)"
    by (simp add: reserve_space_def flush_nodes_def)
qed

lemma ALIGN_values:
  "ALIGN 160 8 = 160" "ALIGN 126900 8 = 126904" "ALIGN 126900 2048 = 126976"
  "ALIGN 200000 8 = 200000"
  by (simp_all add: ALIGN_def)

theorem reserve_space_head_witness:
  "reserve_space plain_ext 160 nand_state = (Inr (10, 0), nand_state\<lparr>head_offs := 160\<rparr>) \<and>
   fst (reserve_space plain_ext 160 (nand_state\<lparr>head_offs := 126900\<rparr>)) = Inr (11, 0) \<and>
   target (snd (reserve_space plain_ext 160 (nand_state\<lparr>head_offs := 126900\<rparr>))) 10 =
     Some (replicate 126900 0xff @ replicate 76 0xCE) \<and>
   lpt (snd (reserve_space plain_ext 160 (nand_state\<lparr>head_offs := 126900\<rparr>))) ! 0 =
     \<lparr>lp_free = 0, lp_dirty = 72, lp_flags = 0\<rparr> \<and>
   head_lnum (snd (reserve_space plain_ext 160 (nand_state\<lparr>head_offs := 126900\<rparr>))) = 11 \<and>
   head_offs (snd (reserve_space plain_ext 160 (nand_state\<lparr>head_offs := 126900\<rparr>))) = 160 \<and>
   fst (reserve_space full_ext 160 (nand_state\<lparr>head_offs := 126900\<rparr>)) =
     Inl (E_leb_change 28) \<and>
   target (snd (reserve_space full_ext 160 (nand_state\<lparr>head_offs := 126900\<rparr>))) 10 = None \<and>
   head_lnum (snd (reserve_space full_ext 160 (nand_state\<lparr>head_offs := 126900\<rparr>))) = 10 \<and>
   head_offs (snd (reserve_space full_ext 160 (nand_state\<lparr>head_offs := 126900\<rparr>))) = 126900 \<and>
   reserve_space plain_ext 200000 nand_state = (Inr (10, 0), nand_state\<lparr>head_offs := 200000\<rparr>)"
proof -
  let ?w = "nand_state\<lparr>head_offs := 126900\<rparr>"
  have g: "leb_size nand_state = 126976" "min_io_size nand_state = 2048"
    "head_offs nand_state = 0" "head_lnum nand_state = 10" "head_flags nand_state = 0"
    "leb_buf nand_state = replicate 126976 0xff" "target nand_state = (\<lambda>l. None)"
    "main_first nand_state = 10" "main_lebs nand_state = 2038"
    "lpt nand_state = replicate 2038 \<lparr>lp_free = 0, lp_dirty = 0, lp_flags = 0\<rparr>"
    by (simp_all add: nand_state_def small_state_def)
  have e: "ext_pad plain_ext = (\<lambda>n. replicate n 0xCE)" "ext_leb_change plain_ext = (\<lambda>l i. 0)"
    "ext_pad full_ext = (\<lambda>n. replicate n 0xCE)" "ext_leb_change full_ext = (\<lambda>l i. 28)"
    by (simp_all add: plain_ext_def full_ext_def)
  have a: "reserve_space plain_ext 160 nand_state = (Inr (10, 0), nand_state\<lparr>head_offs := 160\<rparr>)"
    using reserve_space_head [of 160 nand_state plain_ext, THEN conjunct1]
    by (simp add: g ALIGN_values)
  have d: "reserve_space plain_ext 200000 nand_state =
      (Inr (10, 0), nand_state\<lparr>head_offs := 200000\<rparr>)"
    using reserve_space_head [of 200000 nand_state plain_ext, THEN conjunct2, THEN conjunct2,
        THEN conjunct2]
    by (simp add: g ALIGN_values)
  have b: "reserve_space plain_ext 160 ?w =
      (Inr (11, 0),
       (set_lprops 10 126900 0
          (?w\<lparr>leb_buf := replicate 126900 0xff @ replicate 76 0xCE,
              target := (target ?w)(10 \<mapsto> replicate 126900 0xff @ replicate 76 0xCE)\<rparr>))
       \<lparr>head_lnum := 11, head_offs := 160\<rparr>)"
    using reserve_space_head [of 160 ?w plain_ext, THEN conjunct2, THEN conjunct2,
        THEN conjunct1]
    by (simp add: g e ALIGN_values Let_def memset_def memcpy_def ubifs_pad_def buf_store_def)
  have c: "reserve_space full_ext 160 ?w =
      (Inl (E_leb_change 28), ?w\<lparr>leb_buf := replicate 126900 0xff @ replicate 76 0xCE\<rparr>)"
    using reserve_space_head [of 160 ?w full_ext, THEN conjunct2, THEN conjunct2,
        THEN conjunct1]
    by (simp add: g e ALIGN_values Let_def memset_def memcpy_def ubifs_pad_def buf_store_def)
  have l: "lpt (set_lprops 10 126900 0 s) ! 0 = \<lparr>lp_free = 0, lp_dirty = 72, lp_flags = 0\<rparr>"
    if "main_first s = 10" "main_lebs s = 2038" "min_io_size s = 2048" "leb_size s = 126976"
      "length (lpt s) = 2038" for s
    using that by (simp add: set_lprops_def Let_def ALIGN_values LPROPS_INDEX_def)
  have l2: "lpt (snd (reserve_space plain_ext 160 ?w)) ! 0 =
      \<lparr>lp_free = 0, lp_dirty = 72, lp_flags = 0\<rparr>"
    unfolding b by (simp add: l g)
  have t: "target (set_lprops l off f s) = target s" for l off f s
    by (simp add: set_lprops_def Let_def)
  show ?thesis
    unfolding a d c using l2 by (simp add: b t g)
qed

text \<open>
  C9. \<open>add_node\<close> asks for a name exactly for the keys of directory entries and of
  extended attribute entries. Such a key without a name, or another key with a name,
  makes \<open>add_node\<close> fail before anything else is done: the state it returns is the state
  it was given, so no sequence number is taken, no space is reserved, nothing is put in
  the LEB buffer or written, and the index list and the log of nodes stay as they were.
  In the other cases \<open>add_node\<close> does not fail for the name.
\<close>

theorem add_node_name_check:
  "((key_type key = UBIFS_DENT_KEY \<or> key_type key = UBIFS_XENT_KEY) \<and> name = None \<longrightarrow>
      add_node E key name name_len n len s = (Inl E_dent_without_name, s)) \<and>
   (key_type key \<noteq> UBIFS_DENT_KEY \<and> key_type key \<noteq> UBIFS_XENT_KEY \<and> name \<noteq> None \<longrightarrow>
      add_node E key name name_len n len s = (Inl E_name_for_non_dent, s)) \<and>
   (((key_type key = UBIFS_DENT_KEY \<or> key_type key = UBIFS_XENT_KEY) \<longleftrightarrow> name \<noteq> None) \<longrightarrow>
      fst (add_node E key name name_len n len s) \<noteq> Inl E_dent_without_name \<and>
      fst (add_node E key name name_len n len s) \<noteq> Inl E_name_for_non_dent)"
proof (intro conjI impI)
  assume "(key_type key = UBIFS_DENT_KEY \<or> key_type key = UBIFS_XENT_KEY) \<and> name = None"
  then show "add_node E key name name_len n len s = (Inl E_dent_without_name, s)"
    by (simp add: add_node_def)
next
  assume "key_type key \<noteq> UBIFS_DENT_KEY \<and> key_type key \<noteq> UBIFS_XENT_KEY \<and> name \<noteq> None"
  then show "add_node E key name name_len n len s = (Inl E_name_for_non_dent, s)"
    by (simp add: add_node_def)
next
  assume ok: "(key_type key = UBIFS_DENT_KEY \<or> key_type key = UBIFS_XENT_KEY) \<longleftrightarrow> name \<noteq> None"
  obtain n' s1 where p: "ubifs_prepare_node E n len s = (n', s1)"
    by (cases "ubifs_prepare_node E n len s")
  obtain r s2 where rs: "reserve_space E len s1 = (r, s2)"
    by (cases "reserve_space E len s1")
  have rerr: "\<And>e. r = Inl e \<Longrightarrow> \<exists>c. e = E_leb_change c"
    using rs
    by (auto simp: reserve_space_def flush_nodes_def Let_def split_beta
        split: if_splits prod.splits sum.splits)
  have "fst (add_node E key name name_len n len s) = (case r of Inl e \<Rightarrow> Inl e | Inr x \<Rightarrow> Inr ())"
    using ok p rs by (cases r) (auto simp: add_node_def Let_def split: prod.splits)
  with rerr show "fst (add_node E key name name_len n len s) \<noteq> Inl E_dent_without_name"
    "fst (add_node E key name name_len n len s) \<noteq> Inl E_name_for_non_dent"
    by (cases r; auto)+
qed

theorem add_node_name_check_witness:
  "add_node plain_ext (dent_key_init plain_ext 1 ''a'') None 0
      \<lparr>node_ch = zero_ch, node_body = Sig_body 0 []\<rparr> 57 small_state =
     (Inl E_dent_without_name, small_state) \<and>
   add_node plain_ext (ino_key_init 1) (Some ''a'') 1
      \<lparr>node_ch = zero_ch, node_body = Sig_body 0 []\<rparr> 160 small_state =
     (Inl E_name_for_non_dent, small_state) \<and>
   fst (add_node plain_ext (ino_key_init 1) None 0
      \<lparr>node_ch = zero_ch, node_body = Sig_body 0 []\<rparr> 160 small_state) \<noteq> Inl E_name_for_non_dent"
  using add_node_name_check [of "dent_key_init plain_ext 1 ''a''" None plain_ext 0
      "\<lparr>node_ch = zero_ch, node_body = Sig_body 0 []\<rparr>" 57 small_state]
    add_node_name_check [of "ino_key_init 1" "Some ''a''" plain_ext 1
      "\<lparr>node_ch = zero_ch, node_body = Sig_body 0 []\<rparr>" 160 small_state]
    add_node_name_check [of "ino_key_init 1" None plain_ext 0
      "\<lparr>node_ch = zero_ch, node_body = Sig_body 0 []\<rparr>" 160 small_state]
  by (simp add: dent_key_init_def ino_key_init_def UBIFS_DENT_KEY_def UBIFS_XENT_KEY_def
      UBIFS_INO_KEY_def)

subsection \<open>The superblock\<close>

lemma length_sb_body_bytes: "length (sb_body_bytes sb) = 4072"
  by (simp add: sb_body_bytes_def)

lemma sb_body_bytes_fmt:
  "take 4 (drop 56 (sb_body_bytes sb)) = le32 (word_of_int (sup_fmt_version sb))"
  by (simp add: sb_body_bytes_def)

text \<open>
  The superblock node heads the buffer that \<open>write_super\<close> builds: what is stored behind
  it (the signature node, the padding, the 0xFF fill) leaves the first 4096 bytes alone.
\<close>

lemma sb_prefix_kept:
  assumes "length img = 4096" "4096 \<le> n" "0 \<le> a" "0 \<le> l"
  shows "take 4096 (take n (memset (ubifs_pad E
      (memcpy (memcpy (replicate n 0) 0 img 4096) 4096 sg k) (4096 + a) p)
      (nat (4096 + l)) 0xff m)) = img"
proof -
  let ?b1 = "buf_store (replicate n 0) 0 (take 4096 img)"
  let ?b2 = "buf_store ?b1 4096 (take k sg)"
  let ?b3 = "buf_store ?b2 (nat (4096 + a)) (take (nat p) (ext_pad E (nat p)))"
  let ?b4 = "buf_store ?b3 (nat (4096 + l)) (replicate m 0xff)"
  have o: "4096 \<le> nat (4096 + a)" "4096 \<le> nat (4096 + l)"
    using assms by simp_all
  have l1: "4096 \<le> length ?b1" using assms by (simp add: buf_store_def)
  have l2: "4096 \<le> length ?b2" by (rule length_buf_store_ge) (simp_all add: l1)
  have l3: "4096 \<le> length ?b3" by (rule length_buf_store_ge) (simp_all add: o l2)
  have "take 4096 (take n ?b4) = take 4096 ?b4" using assms by (simp add: min_def)
  also have "\<dots> = take 4096 ?b3" by (rule take_buf_store_below) (simp_all add: o l3)
  also have "\<dots> = take 4096 ?b2" by (rule take_buf_store_below) (simp_all add: o l2)
  also have "\<dots> = take 4096 ?b1" by (rule take_buf_store_below) (simp_all add: l1)
  also have "\<dots> = img" using assms by (simp add: buf_store_def)
  finally show ?thesis by (simp add: memset_def memcpy_def ubifs_pad_def)
qed

lemma write_super_image:
  assumes sz: "length (ext_image E (Sb_body (write_super_sup E s))) = 4072"
    and io: "0 < min_io_size s"
    and ls: "UBIFS_SB_NODE_SZ \<le> leb_size s"
    and ok: "write_super E s = (Inr (), s')"
  shows "\<exists>img. target s' UBIFS_SB_LNUM = Some img \<and>
      take 4096 img = node_image E (fst (ubifs_prepare_node E
        \<lparr>node_ch = zero_ch\<lparr>ch_node_type := UBIFS_SB_NODE\<rparr>,
         node_body = Sb_body (write_super_sup E s)\<rparr> UBIFS_SB_NODE_SZ s))"
proof -
  let ?sup = "\<lparr>node_ch = zero_ch\<lparr>ch_node_type := UBIFS_SB_NODE\<rparr>,
      node_body = Sb_body (write_super_sup E s)\<rparr>"
  let ?sup' = "fst (ubifs_prepare_node E ?sup UBIFS_SB_NODE_SZ s)"
  let ?s1 = "snd (ubifs_prepare_node E ?sup UBIFS_SB_NODE_SZ s)"
  let ?sig = "snd (ext_sign_superblock E (node_image E ?sup'))"
  let ?sig_len = "case node_body ?sig of Sig_body l _ \<Rightarrow> int l | _ \<Rightarrow> 0"
  let ?alen = "ALIGN (UBIFS_SIG_NODE_SZ + ?sig_len) 8"
  let ?len = "ALIGN ?alen (min_io_size s)"
  let ?sig' = "fst (ubifs_prepare_node E ?sig (UBIFS_SIG_NODE_SZ + ?sig_len) ?s1)"
  let ?b4 = "memset (ubifs_pad E
      (memcpy (memcpy (replicate (nat (leb_size s)) 0) 0 (node_image E ?sup') 4096) 4096
         (node_image E ?sig') (nat (UBIFS_SIG_NODE_SZ + ?sig_len))) (4096 + ?alen)
         (?len - ?alen))
      (nat (4096 + ?len)) 0xff (nat (leb_size s - (4096 + ?len)))"
  have sl: "0 \<le> ?sig_len"
    by (simp split: node_body.splits)
  have al: "0 \<le> ?alen"
    using ALIGN_8_ge [of "UBIFS_SIG_NODE_SZ + ?sig_len"] sl
    by (simp add: UBIFS_SIG_NODE_SZ_def)
  have ln: "0 \<le> ?len"
    using al io by (rule ALIGN_nonneg)
  have li: "length (node_image E ?sup') = 4096"
    using sz by (simp add: node_image_def)
  have n: "4096 \<le> nat (leb_size s)"
    using ls by (simp add: UBIFS_SB_NODE_SZ_def)
  from ok have t: "target s' = (target s)(UBIFS_SB_LNUM \<mapsto> take (nat (leb_size s)) ?b4)"
    by (auto simp: write_super_def Let_def split_beta ubifs_leb_change_def UBIFS_SB_NODE_SZ_def
        split: if_splits)
  have "take 4096 (take (nat (leb_size s)) ?b4) = node_image E ?sup'"
    using li n al ln by (rule sb_prefix_kept)
  with t show ?thesis by simp
qed

text \<open>
  C8. A successful \<open>write_super\<close> writes LEB \<open>UBIFS_SB_LNUM\<close>, and the image it writes starts
  with the superblock node: a common header of type \<open>UBIFS_SB_NODE\<close> and length
  \<open>UBIFS_SB_NODE_SZ\<close>, and behind it the superblock fields, of which \<open>fmt_version\<close> is 5 if
  and only if \<open>double_hash\<close> or \<open>encrypted\<close> is set, and 4 otherwise. Under a layout that
  puts \<open>fmt_version\<close> at offset 56 of the fields, as \<^verbatim>\<open>struct ubifs_sb_node\<close> does, bytes 80 to
  83 of the LEB written are the little-endian image of that 5 or 4.
\<close>

theorem write_super_fmt_version:
  assumes "\<forall>sb. length (ext_image E (Sb_body sb)) = 4072"
    and "\<forall>sb. take 4 (drop 56 (ext_image E (Sb_body sb))) =
           le32 (word_of_int (sup_fmt_version sb))"
    and "0 < min_io_size s"
    and "UBIFS_SB_NODE_SZ \<le> leb_size s"
    and "write_super E s = (Inr (), s')"
  shows "\<exists>img h sb.
      target s' UBIFS_SB_LNUM = Some img \<and>
      take 4096 img = ch_bytes h @ ext_image E (Sb_body sb) \<and>
      ch_magic h = UBIFS_NODE_MAGIC \<and> ch_node_type h = UBIFS_SB_NODE \<and>
      ch_len h = UBIFS_SB_NODE_SZ \<and> ch_sqnum h = max_sqnum s + 1 \<and>
      (sup_fmt_version sb = 5 \<longleftrightarrow> (double_hash s \<noteq> 0 \<or> encrypted s \<noteq> 0)) \<and>
      (sup_fmt_version sb = 4 \<longleftrightarrow> \<not> (double_hash s \<noteq> 0 \<or> encrypted s \<noteq> 0)) \<and>
      take 4 (drop 80 img) =
        le32 (if double_hash s \<noteq> 0 \<or> encrypted s \<noteq> 0 then 5 else 4)"
proof -
  let ?sb = "write_super_sup E s"
  let ?sup = "\<lparr>node_ch = zero_ch\<lparr>ch_node_type := UBIFS_SB_NODE\<rparr>, node_body = Sb_body ?sb\<rparr>"
  let ?p = "fst (ubifs_prepare_node E ?sup UBIFS_SB_NODE_SZ s)"
  have sz: "length (ext_image E (Sb_body ?sb)) = 4072" using assms(1) by simp
  from write_super_image [OF sz assms(3) assms(4) assms(5)] obtain img where
    t: "target s' UBIFS_SB_LNUM = Some img" and i: "take 4096 img = node_image E ?p"
    by blast
  have i2: "take 4096 img = ch_bytes (node_ch ?p) @ ext_image E (Sb_body ?sb)"
    using i by (simp add: node_image_def)
  have sz2: "24 + length (ext_image E (node_body ?sup)) = nat UBIFS_SB_NODE_SZ"
    using sz by (simp add: UBIFS_SB_NODE_SZ_def)
  have h: "ch_magic (node_ch ?p) = UBIFS_NODE_MAGIC" "ch_node_type (node_ch ?p) = UBIFS_SB_NODE"
    "ch_len (node_ch ?p) = UBIFS_SB_NODE_SZ" "ch_sqnum (node_ch ?p) = max_sqnum s + 1"
    by (simp_all add: prepare_node_ch [OF sz2])
  have v: "sup_fmt_version ?sb = (if double_hash s \<noteq> 0 \<or> encrypted s \<noteq> 0 then 5 else 4)"
    by (simp add: write_super_sup_def ubifs_format_version_def)
  have "take 4 (drop 80 img) = take 4 (drop 80 (take 4096 img))"
    by (simp add: drop_take)
  also have "\<dots> = take 4 (drop 56 (ext_image E (Sb_body ?sb)))"
    by (simp add: i2)
  also have "\<dots> = le32 (word_of_int (sup_fmt_version ?sb))"
    using assms(2) by simp
  finally have b: "take 4 (drop 80 img) =
      le32 (if double_hash s \<noteq> 0 \<or> encrypted s \<noteq> 0 then 5 else 4)"
    by (simp add: v)
  from v have "sup_fmt_version ?sb = 5 \<longleftrightarrow> (double_hash s \<noteq> 0 \<or> encrypted s \<noteq> 0)"
    "sup_fmt_version ?sb = 4 \<longleftrightarrow> \<not> (double_hash s \<noteq> 0 \<or> encrypted s \<noteq> 0)"
    by simp_all
  with t i2 h b show ?thesis by blast
qed

lemma write_super_plain: "fst (write_super plain_ext s) = Inr ()"
  by (simp add: write_super_def ubifs_leb_change_def plain_ext_def split_beta Let_def)

lemma plain_ext_sb_layout:
  "\<forall>sb. length (ext_image plain_ext (Sb_body sb)) = 4072"
  "\<forall>sb. take 4 (drop 56 (ext_image plain_ext (Sb_body sb))) =
     le32 (word_of_int (sup_fmt_version sb))"
  by (simp_all add: plain_ext_def plain_image_def length_sb_body_bytes sb_body_bytes_fmt)

lemma nand_state_geometry:
  "0 < min_io_size (nand_state\<lparr>encrypted := e\<rparr>)"
  "UBIFS_SB_NODE_SZ \<le> leb_size (nand_state\<lparr>encrypted := e\<rparr>)"
  "0 < min_io_size nand_state"
  "UBIFS_SB_NODE_SZ \<le> leb_size nand_state"
  by (simp_all add: nand_state_def UBIFS_SB_NODE_SZ_def)

theorem write_super_fmt_version_witness:
  "write_super plain_ext (nand_state\<lparr>encrypted := 1\<rparr>) =
     (Inr (), snd (write_super plain_ext (nand_state\<lparr>encrypted := 1\<rparr>))) \<and>
   (\<exists>img. target (snd (write_super plain_ext (nand_state\<lparr>encrypted := 1\<rparr>))) UBIFS_SB_LNUM =
            Some img \<and> take 4 (drop 80 img) = [5, 0, 0, 0]) \<and>
   write_super plain_ext nand_state = (Inr (), snd (write_super plain_ext nand_state)) \<and>
   (\<exists>img. target (snd (write_super plain_ext nand_state)) UBIFS_SB_LNUM = Some img \<and>
          take 4 (drop 80 img) = [4, 0, 0, 0])"
proof -
  let ?e = "nand_state\<lparr>encrypted := 1\<rparr>"
  have w5: "write_super plain_ext ?e = (Inr (), snd (write_super plain_ext ?e))"
    using write_super_plain [of ?e] by (simp add: prod_eq_iff)
  have w4: "write_super plain_ext nand_state = (Inr (), snd (write_super plain_ext nand_state))"
    using write_super_plain [of nand_state] by (simp add: prod_eq_iff)
  have f: "double_hash ?e = 0" "encrypted ?e = 1" "double_hash nand_state = 0"
    "encrypted nand_state = 0"
    by (simp_all add: nand_state_def small_state_def)
  have l: "le32 5 = [5, 0, 0, 0]" "le32 4 = [4, 0, 0, 0]"
    by (simp_all add: le32_def)
  from write_super_fmt_version [OF plain_ext_sb_layout nand_state_geometry(1,2) w5]
  have a: "\<exists>img. target (snd (write_super plain_ext ?e)) UBIFS_SB_LNUM = Some img \<and>
      take 4 (drop 80 img) = [5, 0, 0, 0]"
    by (auto simp: f l)
  from write_super_fmt_version [OF plain_ext_sb_layout nand_state_geometry(3,4) w4]
  have b: "\<exists>img. target (snd (write_super plain_ext nand_state)) UBIFS_SB_LNUM = Some img \<and>
      take 4 (drop 80 img) = [4, 0, 0, 0]"
    by (auto simp: f l)
  from w5 a w4 b show ?thesis by blast
qed

subsection \<open>The master node\<close>

text \<open>Consecutive sequence numbers differ in the first byte of their image.\<close>

lemma le64_succ_neq: "le64 (of_nat (Suc n)) \<noteq> le64 (of_nat n)"
proof
  assume "le64 (of_nat (Suc n)) = le64 (of_nat n)"
  then have "hd (le64 (of_nat (Suc n))) = hd (le64 (of_nat n))" by simp
  then have "(ucast (of_nat (Suc n) :: 64 word) :: byte) = ucast (of_nat n :: 64 word)"
    by (simp add: le64_def)
  then have "take_bit 8 (take_bit 64 (Suc n)) = take_bit 8 (take_bit 64 n)"
    by (simp add: unsigned_of_nat word_of_nat_eq_iff del: of_nat_Suc)
  then have e: "Suc n mod 2 ^ 64 mod 256 = n mod 2 ^ 64 mod 256"
    by (simp add: take_bit_eq_mod)
  have "Suc n mod 256 = Suc n mod 2 ^ 64 mod 256"
    by (rule mod_mod_cancel [symmetric]) simp
  also note e
  also have "n mod 2 ^ 64 mod 256 = n mod 256"
    by (rule mod_mod_cancel) simp
  finally show False
    by (simp add: mod_Suc split: if_splits)
qed

lemma ch_bytes_sqnum_neq:
  "ch_sqnum h2 = Suc (ch_sqnum h1) \<Longrightarrow> ch_bytes h2 \<noteq> ch_bytes h1"
  using le64_succ_neq [of "ch_sqnum h1"] by (auto simp: ch_bytes_def)

lemma write_node_image:
  assumes sz: "24 + length (ext_image E (node_body n)) = nat len"
    and al: "ALIGN len 8 = len"
    and lo: "len \<le> ALIGN len (min_io_size s)"
    and hi: "ALIGN len (min_io_size s) \<le> leb_size s"
    and pad: "\<forall>k. length (ext_pad E k) = k"
    and w: "write_node E n len lnum s = (n', (Inr (), s'))"
  shows "n' = fst (ubifs_prepare_node E n len s) \<and>
         s' = s\<lparr>max_sqnum := max_sqnum s + 1,
                leb_buf := leb_image_of E s n' len @ drop (nat (leb_size s)) (leb_buf s),
                target := (target s)(lnum \<mapsto> leb_image_of E s n' len)\<rparr>"
proof -
  define p where "p = fst (ubifs_prepare_node E n len s)"
  define wlen where "wlen = ALIGN len (min_io_size s)"
  have len_img: "length (node_image E p) = nat len"
    using sz by (simp add: node_image_def p_def)
  have pos: "0 \<le> len" "len \<le> wlen" "wlen \<le> leb_size s"
    using sz lo hi by (auto simp: wlen_def)
  have padlen: "length (ext_pad E (nat (wlen - len))) = nat (wlen - len)"
    using pad by simp
  have nats: "nat wlen - nat len \<le> nat (leb_size s) - nat len"
    using pos by linarith
  have b: "memset (ubifs_pad E (memset (memcpy (leb_buf s) 0 (node_image E p) (nat len))
              (nat len) 0xff (nat (len - len))) len (wlen - len))
            (nat wlen) 0xff (nat (leb_size s - wlen)) =
           leb_image_of E s p len @ drop (nat (leb_size s)) (leb_buf s)"
    using len_img pos padlen nats
    by (simp add: memset_def memcpy_def ubifs_pad_def buf_store_def leb_image_of_def
        wlen_def [symmetric] nat_diff_distrib nat_le_eq_zle)
  have l: "length (leb_image_of E s p len) = nat (leb_size s)"
    using len_img pos padlen
    by (simp add: leb_image_of_def wlen_def [symmetric])
  let ?img = "leb_image_of E s p len"
  let ?s2 = "s\<lparr>max_sqnum := max_sqnum s + 1,
      leb_buf := ?img @ drop (nat (leb_size s)) (leb_buf s)\<rparr>"
  have w2: "write_node E n len lnum s =
      (p, if ext_leb_change E lnum ?img \<noteq> 0
          then (Inl (E_leb_change (ext_leb_change E lnum ?img)), ?s2)
          else (Inr (), ?s2\<lparr>target := (target s)(lnum \<mapsto> ?img)\<rparr>))"
    using b l
    by (simp add: write_node_def Let_def split_beta al p_def [symmetric] wlen_def [symmetric]
        prepare_node_state ubifs_leb_change_def)
  have eq: "(n', Inr (), s') =
      (p, if ext_leb_change E lnum ?img \<noteq> 0
          then (Inl (E_leb_change (ext_leb_change E lnum ?img)), ?s2)
          else (Inr (), ?s2\<lparr>target := (target s)(lnum \<mapsto> ?img)\<rparr>))"
    unfolding w [symmetric] by (rule w2)
  show ?thesis
  proof (cases "ext_leb_change E lnum ?img = 0")
    case True
    with eq have "n' = p" and "s' = ?s2\<lparr>target := (target s)(lnum \<mapsto> ?img)\<rparr>"
      by simp_all
    then show ?thesis by (simp add: p_def)
  next
    case False
    with eq have False by simp
    then show ?thesis ..
  qed
qed

text \<open>
  What a successful \<open>write_master\<close> leaves in the two master LEBs: the same master node
  behind two common headers, of which the second carries the next sequence number and
  the CRC over it.
\<close>

lemma write_master_images:
  assumes sz: "length (ext_image E (node_body (write_master_mst s))) = 488"
    and pad: "\<forall>k. length (ext_pad E k) = k"
    and lo: "UBIFS_MST_NODE_SZ \<le> ALIGN UBIFS_MST_NODE_SZ (min_io_size s)"
    and hi: "ALIGN UBIFS_MST_NODE_SZ (min_io_size s) \<le> leb_size s"
    and w: "write_master E s = (Inr (), s')"
  shows "\<exists>h1 h2.
      target s' UBIFS_MST_LNUM =
        Some (ch_bytes h1 @ ext_image E (node_body (write_master_mst s)) @
          ext_pad E (nat (ALIGN UBIFS_MST_NODE_SZ (min_io_size s) - UBIFS_MST_NODE_SZ)) @
          replicate (nat (leb_size s - ALIGN UBIFS_MST_NODE_SZ (min_io_size s))) 0xff) \<and>
      target s' (UBIFS_MST_LNUM + 1) =
        Some (ch_bytes h2 @ ext_image E (node_body (write_master_mst s)) @
          ext_pad E (nat (ALIGN UBIFS_MST_NODE_SZ (min_io_size s) - UBIFS_MST_NODE_SZ)) @
          replicate (nat (leb_size s - ALIGN UBIFS_MST_NODE_SZ (min_io_size s))) 0xff) \<and>
      h1 = \<lparr>ch_magic = UBIFS_NODE_MAGIC,
            ch_crc = ext_crc32 E (le32 UBIFS_NODE_MAGIC @ le64 (of_nat (max_sqnum s + 1)) @
              le32 (word_of_int UBIFS_MST_NODE_SZ) @ [UBIFS_MST_NODE, 0, 0, 0] @
              ext_image E (node_body (write_master_mst s))),
            ch_sqnum = max_sqnum s + 1, ch_len = UBIFS_MST_NODE_SZ,
            ch_node_type = UBIFS_MST_NODE, ch_group_type = 0\<rparr> \<and>
      h2 = \<lparr>ch_magic = UBIFS_NODE_MAGIC,
            ch_crc = ext_crc32 E (le32 UBIFS_NODE_MAGIC @ le64 (of_nat (max_sqnum s + 2)) @
              le32 (word_of_int UBIFS_MST_NODE_SZ) @ [UBIFS_MST_NODE, 0, 0, 0] @
              ext_image E (node_body (write_master_mst s))),
            ch_sqnum = max_sqnum s + 2, ch_len = UBIFS_MST_NODE_SZ,
            ch_node_type = UBIFS_MST_NODE, ch_group_type = 0\<rparr> \<and>
      max_sqnum s' = max_sqnum s + 2"
proof -
  let ?mst = "write_master_mst s"
  let ?L = "UBIFS_MST_NODE_SZ"
  obtain n1 x1 s1 where w1: "write_node E ?mst ?L UBIFS_MST_LNUM s = (n1, (x1, s1))"
    by (metis surj_pair)
  obtain n2 x2 s2 where w2: "write_node E n1 ?L (UBIFS_MST_LNUM + 1) s1 = (n2, (x2, s2))"
    by (metis surj_pair)
  from w w1 have x1: "x1 = Inr ()"
    by (cases x1) (simp_all add: write_master_def Let_def)
  from w w1 w2 x1 have x2: "x2 = Inr ()"
    by (cases x2) (simp_all add: write_master_def Let_def)
  from w w1 w2 x1 x2 have s': "target s' = target s2" "max_sqnum s' = max_sqnum s2"
    by (auto simp: write_master_def Let_def split_beta split: if_splits)
  have al: "ALIGN ?L 8 = ?L"
    by (simp add: ALIGN_8 UBIFS_MST_NODE_SZ_def)
  have sz1: "24 + length (ext_image E (node_body ?mst)) = nat ?L"
    using sz by (simp add: UBIFS_MST_NODE_SZ_def)
  from write_node_image [OF sz1 al lo hi pad w1 [unfolded x1]]
  have n1: "n1 = fst (ubifs_prepare_node E ?mst ?L s)"
    and s1: "s1 = s\<lparr>max_sqnum := max_sqnum s + 1,
                leb_buf := leb_image_of E s n1 ?L @ drop (nat (leb_size s)) (leb_buf s),
                target := (target s)(UBIFS_MST_LNUM \<mapsto> leb_image_of E s n1 ?L)\<rparr>"
    by simp_all
  have b1: "node_body n1 = node_body ?mst" by (simp add: n1)
  have sz2: "24 + length (ext_image E (node_body n1)) = nat ?L"
    using sz1 by (simp add: b1)
  have lo2: "?L \<le> ALIGN ?L (min_io_size s1)" and hi2: "ALIGN ?L (min_io_size s1) \<le> leb_size s1"
    using lo hi by (simp_all add: s1)
  from write_node_image [OF sz2 al lo2 hi2 pad w2 [unfolded x2]]
  have n2: "n2 = fst (ubifs_prepare_node E n1 ?L s1)"
    and t2: "target s2 = (target s1)(UBIFS_MST_LNUM + 1 \<mapsto> leb_image_of E s1 n2 ?L)"
    and q2: "max_sqnum s2 = max_sqnum s1 + 1"
    by simp_all
  have b2: "node_body n2 = node_body ?mst" by (simp add: n2 b1)
  let ?rest = "ext_image E (node_body ?mst) @
      ext_pad E (nat (ALIGN ?L (min_io_size s) - ?L)) @
      replicate (nat (leb_size s - ALIGN ?L (min_io_size s))) 0xff"
  have i1: "leb_image_of E s n1 ?L = ch_bytes (node_ch n1) @ ?rest"
    by (simp add: leb_image_of_def node_image_def b1)
  have i2: "leb_image_of E s1 n2 ?L = ch_bytes (node_ch n2) @ ?rest"
    by (simp add: leb_image_of_def node_image_def b2) (simp add: s1)
  have t: "target s' UBIFS_MST_LNUM = Some (ch_bytes (node_ch n1) @ ?rest)"
    "target s' (UBIFS_MST_LNUM + 1) = Some (ch_bytes (node_ch n2) @ ?rest)"
    by (simp_all add: s' t2 i2) (simp add: s1 i1)
  have m: "ch_node_type (node_ch ?mst) = UBIFS_MST_NODE" "ch_group_type (node_ch ?mst) = 0"
    by (simp_all add: write_master_mst_def zero_ch_def)
  have h1: "node_ch n1 = \<lparr>ch_magic = UBIFS_NODE_MAGIC,
            ch_crc = ext_crc32 E (le32 UBIFS_NODE_MAGIC @ le64 (of_nat (max_sqnum s + 1)) @
              le32 (word_of_int ?L) @ [UBIFS_MST_NODE, 0, 0, 0] @
              ext_image E (node_body ?mst)),
            ch_sqnum = max_sqnum s + 1, ch_len = ?L,
            ch_node_type = UBIFS_MST_NODE, ch_group_type = 0\<rparr>"
    unfolding n1 prepare_node_ch [OF sz1] m ..
  have m2: "ch_node_type (node_ch n1) = UBIFS_MST_NODE" "ch_group_type (node_ch n1) = 0"
    by (simp_all add: h1)
  have q1: "max_sqnum s1 + 1 = max_sqnum s + 2" by (simp add: s1)
  have h2: "node_ch n2 = \<lparr>ch_magic = UBIFS_NODE_MAGIC,
            ch_crc = ext_crc32 E (le32 UBIFS_NODE_MAGIC @ le64 (of_nat (max_sqnum s + 2)) @
              le32 (word_of_int ?L) @ [UBIFS_MST_NODE, 0, 0, 0] @
              ext_image E (node_body ?mst)),
            ch_sqnum = max_sqnum s + 2, ch_len = ?L,
            ch_node_type = UBIFS_MST_NODE, ch_group_type = 0\<rparr>"
    unfolding n2 prepare_node_ch [OF sz2] m2 b1 q1 ..
  have q: "max_sqnum s' = max_sqnum s + 2"
    using s'(2) q2 q1 by simp
  from t h1 h2 q show ?thesis by blast
qed

lemma master_images_differ:
  assumes "target s' UBIFS_MST_LNUM = Some (ch_bytes h1 @ rest)"
    and "target s' (UBIFS_MST_LNUM + 1) = Some (ch_bytes h2 @ rest)"
    and "ch_sqnum h2 = Suc (ch_sqnum h1)"
  shows "target s' UBIFS_MST_LNUM \<noteq> target s' (UBIFS_MST_LNUM + 1)"
  using assms ch_bytes_sqnum_neq [of h2 h1] by simp

text \<open>
  C1 (as the code has it). A successful \<open>write_master\<close> writes the master node twice, at
  LEBs \<open>UBIFS_MST_LNUM\<close> and \<open>UBIFS_MST_LNUM + 1\<close>. Each LEB holds a common header, the fields
  of the master node, the padding up to the minimum I/O unit and 0xFF up to the end of
  the LEB. The fields, the padding and the fill are the same in both, and so are the
  magic, the length and the node type of the headers. But \<open>write_node\<close> prepares the node
  anew for each write: the first header carries the sequence number \<open>max_sqnum + 1\<close>, the
  second \<open>max_sqnum + 2\<close>, and each the CRC over its own bytes. So the two LEBs are not
  byte-identical.
\<close>

theorem write_master_twice:
  assumes "\<forall>m. length (ext_image E (Mst_body m)) = 488"
    and "\<forall>k. length (ext_pad E k) = k"
    and "UBIFS_MST_NODE_SZ \<le> ALIGN UBIFS_MST_NODE_SZ (min_io_size s)"
    and "ALIGN UBIFS_MST_NODE_SZ (min_io_size s) \<le> leb_size s"
    and "write_master E s = (Inr (), s')"
  shows "let body = ext_image E (Mst_body
             \<lparr>mst_highest_inum = highest_inum s, mst_cmt_no = 0,
              mst_flags = UBIFS_MST_NO_ORPHS, mst_log_lnum = UBIFS_LOG_LNUM,
              mst_root_lnum = zroot_lnum s, mst_root_offs = zroot_offs s,
              mst_root_len = zroot_len s, mst_gc_lnum = gc_lnum s,
              mst_ihead_lnum = ihead_lnum s, mst_ihead_offs = ihead_offs s,
              mst_index_size = bi_old_idx_sz s, mst_total_free = lst_total_free s,
              mst_total_dirty = lst_total_dirty s, mst_total_used = lst_total_used s,
              mst_total_dead = lst_total_dead s, mst_total_dark = lst_total_dark s,
              mst_lpt_lnum = lpt_lnum s, mst_lpt_offs = lpt_offs s,
              mst_nhead_lnum = nhead_lnum s, mst_nhead_offs = nhead_offs s,
              mst_ltab_lnum = ltab_lnum s, mst_ltab_offs = ltab_offs s,
              mst_lsave_lnum = lsave_lnum s, mst_lsave_offs = lsave_offs s,
              mst_lscan_lnum = lscan_lnum s, mst_empty_lebs = lst_empty_lebs s,
              mst_idx_lebs = lst_idx_lebs s, mst_leb_cnt = leb_cnt s,
              mst_hash_root_idx =
                (if authenticated s then take (hash_len s) (root_idx_hash s) else []),
              mst_hash_lpt =
                (if authenticated s then take (hash_len s) (lpt_hash s) else [])\<rparr>);
           fill = ext_pad E (nat (ALIGN UBIFS_MST_NODE_SZ (min_io_size s) - UBIFS_MST_NODE_SZ)) @
             replicate (nat (leb_size s - ALIGN UBIFS_MST_NODE_SZ (min_io_size s))) 0xff;
           hdr = (\<lambda>sq.
             \<lparr>ch_magic = UBIFS_NODE_MAGIC,
              ch_crc = ext_crc32 E (le32 UBIFS_NODE_MAGIC @ le64 (of_nat sq) @
                le32 (word_of_int UBIFS_MST_NODE_SZ) @ [UBIFS_MST_NODE, 0, 0, 0] @ body),
              ch_sqnum = sq, ch_len = UBIFS_MST_NODE_SZ, ch_node_type = UBIFS_MST_NODE,
              ch_group_type = 0\<rparr>)
         in target s' UBIFS_MST_LNUM = Some (ch_bytes (hdr (max_sqnum s + 1)) @ body @ fill) \<and>
            target s' (UBIFS_MST_LNUM + 1) =
              Some (ch_bytes (hdr (max_sqnum s + 2)) @ body @ fill) \<and>
            max_sqnum s' = max_sqnum s + 2 \<and>
            target s' UBIFS_MST_LNUM \<noteq> target s' (UBIFS_MST_LNUM + 1)"
proof -
  have sz: "length (ext_image E (node_body (write_master_mst s))) = 488"
    using assms(1) by (simp add: write_master_mst_def)
  from write_master_images [OF sz assms(2-5)] obtain h1 h2 where
    t: "target s' UBIFS_MST_LNUM =
        Some (ch_bytes h1 @ ext_image E (node_body (write_master_mst s)) @
          ext_pad E (nat (ALIGN UBIFS_MST_NODE_SZ (min_io_size s) - UBIFS_MST_NODE_SZ)) @
          replicate (nat (leb_size s - ALIGN UBIFS_MST_NODE_SZ (min_io_size s))) 0xff)"
      "target s' (UBIFS_MST_LNUM + 1) =
        Some (ch_bytes h2 @ ext_image E (node_body (write_master_mst s)) @
          ext_pad E (nat (ALIGN UBIFS_MST_NODE_SZ (min_io_size s) - UBIFS_MST_NODE_SZ)) @
          replicate (nat (leb_size s - ALIGN UBIFS_MST_NODE_SZ (min_io_size s))) 0xff)"
    and h1: "h1 = \<lparr>ch_magic = UBIFS_NODE_MAGIC,
            ch_crc = ext_crc32 E (le32 UBIFS_NODE_MAGIC @ le64 (of_nat (max_sqnum s + 1)) @
              le32 (word_of_int UBIFS_MST_NODE_SZ) @ [UBIFS_MST_NODE, 0, 0, 0] @
              ext_image E (node_body (write_master_mst s))),
            ch_sqnum = max_sqnum s + 1, ch_len = UBIFS_MST_NODE_SZ,
            ch_node_type = UBIFS_MST_NODE, ch_group_type = 0\<rparr>"
    and h2: "h2 = \<lparr>ch_magic = UBIFS_NODE_MAGIC,
            ch_crc = ext_crc32 E (le32 UBIFS_NODE_MAGIC @ le64 (of_nat (max_sqnum s + 2)) @
              le32 (word_of_int UBIFS_MST_NODE_SZ) @ [UBIFS_MST_NODE, 0, 0, 0] @
              ext_image E (node_body (write_master_mst s))),
            ch_sqnum = max_sqnum s + 2, ch_len = UBIFS_MST_NODE_SZ,
            ch_node_type = UBIFS_MST_NODE, ch_group_type = 0\<rparr>"
    and q: "max_sqnum s' = max_sqnum s + 2"
    by blast
  have "ch_sqnum h2 = Suc (ch_sqnum h1)" by (simp add: h1 h2)
  from master_images_differ [OF t this]
  have d: "target s' UBIFS_MST_LNUM \<noteq> target s' (UBIFS_MST_LNUM + 1)" .
  from t q d show ?thesis
    unfolding h1 h2 Let_def by (simp add: write_master_mst_def)
qed

lemma write_master_plain: "fst (write_master plain_ext s) = Inr ()"
  by (simp add: write_master_def write_node_def ubifs_leb_change_def plain_ext_def split_beta
      Let_def)

lemma length_mst_body_bytes: "length (mst_body_bytes m) = 488"
  by (simp add: mst_body_bytes_def)

lemma nand_state_master:
  "\<forall>k. length (ext_pad plain_ext k) = k"
  "UBIFS_MST_NODE_SZ \<le> ALIGN UBIFS_MST_NODE_SZ (min_io_size nand_state)"
  "ALIGN UBIFS_MST_NODE_SZ (min_io_size nand_state) \<le> leb_size nand_state"
  by (simp_all add: plain_ext_def nand_state_def small_state_def UBIFS_MST_NODE_SZ_def ALIGN_def)

lemma plain_ext_mst_layout: "length (ext_image plain_ext (Mst_body m)) = 488"
  by (simp add: plain_ext_def plain_image_def length_mst_body_bytes)

theorem write_master_twice_witness:
  "write_master plain_ext nand_state = (Inr (), snd (write_master plain_ext nand_state)) \<and>
   length (the (target (snd (write_master plain_ext nand_state)) UBIFS_MST_LNUM)) = 126976 \<and>
   length (the (target (snd (write_master plain_ext nand_state)) (UBIFS_MST_LNUM + 1))) =
     126976 \<and>
   take 8 (drop 8 (the (target (snd (write_master plain_ext nand_state)) UBIFS_MST_LNUM))) =
     [1, 0, 0, 0, 0, 0, 0, 0] \<and>
   take 8 (drop 8 (the (target (snd (write_master plain_ext nand_state))
     (UBIFS_MST_LNUM + 1)))) = [2, 0, 0, 0, 0, 0, 0, 0] \<and>
   drop 24 (the (target (snd (write_master plain_ext nand_state)) UBIFS_MST_LNUM)) =
     drop 24 (the (target (snd (write_master plain_ext nand_state)) (UBIFS_MST_LNUM + 1))) \<and>
   max_sqnum (snd (write_master plain_ext nand_state)) = 2"
proof -
  have w: "write_master plain_ext nand_state =
      (Inr (), snd (write_master plain_ext nand_state))"
    using write_master_plain [of nand_state] by (simp add: prod_eq_iff)
  have g: "max_sqnum nand_state = 0" "leb_size nand_state = 126976"
    "min_io_size nand_state = 2048"
    by (simp_all add: nand_state_def small_state_def)
  have a: "ALIGN 512 2048 = 2048" "UBIFS_MST_NODE_SZ = 512"
    by (simp_all add: UBIFS_MST_NODE_SZ_def ALIGN_def)
  have l: "le64 1 = [1, 0, 0, 0, 0, 0, 0, 0]" "le64 2 = [2, 0, 0, 0, 0, 0, 0, 0]"
    by (simp_all add: le64_def)
  have p: "ext_pad plain_ext = (\<lambda>n. replicate n 0xCE)"
    by (simp add: plain_ext_def)
  from write_master_twice [OF _ nand_state_master w] plain_ext_mst_layout w
  show ?thesis
    by (simp add: Let_def g a l p ch_bytes_def plain_ext_mst_layout)
qed

text \<open>
  The claim as the spec states it fails on the NAND geometry: the build writes both
  master LEBs, and they differ.
\<close>

theorem master_lebs_differ_counterexample:
  "fst (write_master plain_ext nand_state) = Inr () \<and>
   target (snd (write_master plain_ext nand_state)) UBIFS_MST_LNUM \<noteq>
   target (snd (write_master plain_ext nand_state)) (UBIFS_MST_LNUM + 1)"
proof -
  have w: "write_master plain_ext nand_state =
      (Inr (), snd (write_master plain_ext nand_state))"
    using write_master_plain [of nand_state] by (simp add: prod_eq_iff)
  have sz: "length (ext_image plain_ext (node_body (write_master_mst nand_state))) = 488"
    by (simp add: write_master_mst_def plain_ext_mst_layout)
  from write_master_images [OF sz nand_state_master w] obtain h1 h2 rest where
    t: "target (snd (write_master plain_ext nand_state)) UBIFS_MST_LNUM =
        Some (ch_bytes h1 @ rest)"
    "target (snd (write_master plain_ext nand_state)) (UBIFS_MST_LNUM + 1) =
        Some (ch_bytes h2 @ rest)"
    and q: "ch_sqnum h1 = max_sqnum nand_state + 1" "ch_sqnum h2 = max_sqnum nand_state + 2"
    by force
  from q have "ch_sqnum h2 = Suc (ch_sqnum h1)" by simp
  from master_images_differ [OF t this] write_master_plain [of nand_state]
  show ?thesis by simp
qed

subsection \<open>Sorting the index list\<close>

lemma memcmp_lex:
  "((let c = memcmp xs ys (min (length xs) (length ys))
     in if c \<noteq> 0 then c else if length xs < length ys then - 1 else 1) < 0) =
   (map (of_char :: char \<Rightarrow> nat) xs < map of_char ys)"
proof (induction xs arbitrary: ys)
  case Nil
  then show ?case by (cases ys) simp_all
next
  case (Cons x xs)
  show ?case
  proof (cases ys)
    case Nil
    then show ?thesis by simp
  next
    case (Cons y ys')
    show ?thesis
    proof (cases "x = y")
      case True
      with Cons.IH [of ys'] Cons show ?thesis
        by (auto simp: Let_def min_def split: if_splits)
    next
      case False
      then have "(of_char x :: nat) \<noteq> of_char y" by simp
      with False Cons show ?thesis by (auto simp: Let_def)
    qed
  qed
qed

lemma namecmp_lex:
  assumes "ie_name_len a = length (ie_name_bytes a)" "ie_name_len b = length (ie_name_bytes b)"
  shows "(namecmp a b < 0) =
    (map (of_char :: char \<Rightarrow> nat) (ie_name_bytes a) < map of_char (ie_name_bytes b))"
proof -
  have m: "(if ie_name_len a < ie_name_len b then ie_name_len a else ie_name_len b) =
      min (length (ie_name_bytes a)) (length (ie_name_bytes b))"
    using assms by simp
  show ?thesis
    unfolding namecmp_def Let_def m
    using memcmp_lex [of "ie_name_bytes a" "ie_name_bytes b"] assms
    by (auto simp: Let_def split: if_splits)
qed

lemma cmp_idx_nonzero: "cmp_idx a b \<noteq> 0"
  by (simp add: cmp_idx_def namecmp_def Let_def)

lemma cmp_idx_less:
  assumes "ie_name_len a = length (ie_name_bytes a)" "ie_name_len b = length (ie_name_bytes b)"
  shows "(cmp_idx a b < 0) = spec_idx_less a b"
  using namecmp_lex [OF assms]
  by (auto simp: cmp_idx_def keys_cmp_def spec_idx_less_def Let_def)

lemma cmp_idx_same:
  assumes "ie_key a = ie_key b" "ie_name_bytes a = ie_name_bytes b"
    "ie_name_len a = length (ie_name_bytes a)" "ie_name_len b = length (ie_name_bytes b)"
  shows "cmp_idx a b = 1"
proof -
  have "memcmp xs xs n = 0" for xs n
  proof (induction xs arbitrary: n)
    case Nil
    then show ?case by simp
  next
    case (Cons x xs)
    then show ?case by (cases n) simp_all
  qed
  with assms show ?thesis
    by (simp add: cmp_idx_def keys_cmp_def namecmp_def Let_def)
qed

lemma lex4_trans:
  fixes a1 b1 c1 a2 b2 c2 a3 b3 c3 :: nat and a4 b4 c4 :: "nat list"
  assumes "a1 < b1 \<or> a1 = b1 \<and> (a2 < b2 \<or> a2 = b2 \<and> (a3 < b3 \<or> a3 = b3 \<and> a4 < b4))"
    and "b1 < c1 \<or> b1 = c1 \<and> (b2 < c2 \<or> b2 = c2 \<and> (b3 < c3 \<or> b3 = c3 \<and> b4 < c4))"
  shows "a1 < c1 \<or> a1 = c1 \<and> (a2 < c2 \<or> a2 = c2 \<and> (a3 < c3 \<or> a3 = c3 \<and> a4 < c4))"
proof -
  have "a4 < c4" if "a4 < b4" "b4 < c4" using that by (rule less_trans)
  with assms show ?thesis by (elim disjE conjE) simp_all
qed

lemma spec_idx_less_trans:
  "spec_idx_less a b \<Longrightarrow> spec_idx_less b c \<Longrightarrow> spec_idx_less a c"
  unfolding spec_idx_less_def Let_def by (rule lex4_trans)

lemma spec_idx_less_asym: "spec_idx_less a b \<Longrightarrow> \<not> spec_idx_less b a"
  unfolding spec_idx_less_def Let_def
  by (elim disjE conjE) (simp_all add: less_asym)

lemma set_qsort_insert: "set (qsort_insert cmp x ys) = insert x (set ys)"
  by (induction ys) auto

lemma mset_qsort_insert: "mset (qsort_insert cmp x ys) = add_mset x (mset ys)"
  by (induction ys) auto

lemma mset_qsort: "mset (qsort cmp xs) = mset xs"
  by (induction xs) (simp_all add: qsort_def mset_qsort_insert)

lemma set_qsort: "set (qsort cmp xs) = set xs"
  using mset_qsort [of cmp xs] by (metis set_mset_mset)

lemma sorted_qsort_insert:
  assumes "\<forall>e \<in> insert x (set ys). ie_name_len e = length (ie_name_bytes e)"
    and "sorted_wrt (\<lambda>a b. \<not> spec_idx_less b a) ys"
  shows "sorted_wrt (\<lambda>a b. \<not> spec_idx_less b a) (qsort_insert cmp_idx x ys)"
  using assms
proof (induction ys)
  case Nil
  then show ?case by simp
next
  case (Cons y ys)
  have c: "(cmp_idx x y < 0) = spec_idx_less x y"
    using Cons.prems(1) by (intro cmp_idx_less) simp_all
  show ?case
  proof (cases "cmp_idx x y \<le> 0")
    case True
    with c cmp_idx_nonzero [of x y] have l: "spec_idx_less x y" by simp
    have "\<not> spec_idx_less z x" if "z \<in> set (y # ys)" for z
    proof
      assume zx: "spec_idx_less z x"
      then have zy: "spec_idx_less z y" using l by (rule spec_idx_less_trans)
      from that consider "z = y" | "z \<in> set ys" by auto
      then show False
      proof cases
        case 1
        with zy spec_idx_less_asym show False by blast
      next
        case 2
        with Cons.prems(2) zy show False by simp
      qed
    qed
    with True Cons.prems(2) show ?thesis by simp
  next
    case False
    with c have n: "\<not> spec_idx_less x y" by simp
    from Cons.prems have "sorted_wrt (\<lambda>a b. \<not> spec_idx_less b a) (qsort_insert cmp_idx x ys)"
      by (intro Cons.IH) simp_all
    with False n Cons.prems(2) show ?thesis by (simp add: set_qsort_insert)
  qed
qed

lemma sorted_qsort:
  assumes "\<forall>e \<in> set xs. ie_name_len e = length (ie_name_bytes e)"
  shows "sorted_wrt (\<lambda>a b. \<not> spec_idx_less b a) (qsort cmp_idx xs)"
  using assms
proof (induction xs)
  case Nil
  then show ?case by (simp add: qsort_def)
next
  case (Cons x xs)
  then have "sorted_wrt (\<lambda>a b. \<not> spec_idx_less b a) (qsort cmp_idx xs)" by simp
  moreover have "\<forall>e \<in> insert x (set (qsort cmp_idx xs)).
      ie_name_len e = length (ie_name_bytes e)"
    using Cons.prems by (simp add: set_qsort)
  ultimately have "sorted_wrt (\<lambda>a b. \<not> spec_idx_less b a)
      (qsort_insert cmp_idx x (qsort cmp_idx xs))"
    by (intro sorted_qsort_insert)
  then show ?case by (simp add: qsort_def)
qed

lemma write_index_sort_result:
  assumes "length (idx_list s) < 2 ^ 61"
  shows "fst (write_index_sort s) = Inr (qsort cmp_idx (idx_list s))"
proof -
  have "length (idx_list s) * 8 < 2 ^ 64" using assms by simp
  then have "length (idx_list s) * 8 mod 2 ^ 64 div 8 = length (idx_list s)" by simp
  then show ?thesis by (simp add: write_index_sort_def Let_def)
qed

text \<open>
  C2 (as the code has it). \<open>write_index\<close> copies the index leaf list into an array and
  sorts it with \<open>cmp_idx\<close>: the result is a permutation of the list in the order of the
  spec, by key and for equal keys by lexicographic comparison of the raw name bytes. On
  the entries of the list \<open>cmp_idx\<close> is negative exactly when the first entry comes before
  the second in that order, and it is never 0. Two entries with equal keys and equal
  names are not detected: \<open>cmp_idx\<close> answers 1 for them whichever comes first, and the
  sort returns without an error. The only error of this part of \<open>write_index\<close> is the
  overflow of the size of the array, which takes \<open>2 ^ 61\<close> entries.
\<close>

theorem write_index_sort_order:
  assumes "\<forall>e \<in> set (idx_list s). ie_name_len e = length (ie_name_bytes e)"
    and "length (idx_list s) < 2 ^ 61"
  shows "\<exists>arr. write_index_sort s = (Inr arr, s\<lparr>head_flags := LPROPS_INDEX\<rparr>) \<and>
     mset arr = mset (idx_list s) \<and>
     sorted_wrt (\<lambda>a b. \<not> spec_idx_less b a) arr \<and>
     (\<forall>a \<in> set (idx_list s). \<forall>b \<in> set (idx_list s).
        cmp_idx a b \<noteq> 0 \<and> (cmp_idx a b < 0 \<longleftrightarrow> spec_idx_less a b) \<and>
        (ie_key a = ie_key b \<and> ie_name_bytes a = ie_name_bytes b \<longrightarrow>
           cmp_idx a b = 1 \<and> cmp_idx b a = 1))"
proof -
  let ?arr = "qsort cmp_idx (idx_list s)"
  have r: "write_index_sort s = (Inr ?arr, s\<lparr>head_flags := LPROPS_INDEX\<rparr>)"
    using write_index_sort_result [OF assms(2)]
    by (simp add: write_index_sort_def Let_def split: if_splits)
  have m: "mset ?arr = mset (idx_list s)" by (rule mset_qsort)
  have o: "sorted_wrt (\<lambda>a b. \<not> spec_idx_less b a) ?arr"
    using assms(1) by (rule sorted_qsort)
  have c: "cmp_idx a b \<noteq> 0 \<and> (cmp_idx a b < 0 \<longleftrightarrow> spec_idx_less a b) \<and>
        (ie_key a = ie_key b \<and> ie_name_bytes a = ie_name_bytes b \<longrightarrow>
           cmp_idx a b = 1 \<and> cmp_idx b a = 1)"
    if "a \<in> set (idx_list s)" "b \<in> set (idx_list s)" for a b
  proof -
    from that assms(1) have wf: "ie_name_len a = length (ie_name_bytes a)"
      "ie_name_len b = length (ie_name_bytes b)"
      by blast+
    show ?thesis
      using cmp_idx_nonzero [of a b] cmp_idx_less [OF wf] cmp_idx_same [of a b]
        cmp_idx_same [of b a] wf
      by simp
  qed
  from r m o c show ?thesis by blast
qed

theorem write_index_sort_order_witness:
  "length (idx_list collision_state) < 2 ^ 61 \<and>
   write_index_sort collision_state =
     (Inr [idx_leaf (ino_key_init 1) None 64,
           idx_leaf (dent_key_init plain_ext 1 ''ab'') (Some ''ab'') 128,
           idx_leaf (dent_key_init plain_ext 1 ''ba'') (Some ''ba'') 0],
      collision_state\<lparr>head_flags := LPROPS_INDEX\<rparr>) \<and>
   sorted_wrt (\<lambda>a b. \<not> spec_idx_less b a)
     [idx_leaf (ino_key_init 1) None 64,
      idx_leaf (dent_key_init plain_ext 1 ''ab'') (Some ''ab'') 128,
      idx_leaf (dent_key_init plain_ext 1 ''ba'') (Some ''ba'') 0] \<and>
   cmp_idx (idx_leaf (dent_key_init plain_ext 1 ''ab'') (Some ''ab'') 128)
     (idx_leaf (dent_key_init plain_ext 1 ''ba'') (Some ''ba'') 0) < 0"
proof -
  define i where "i = idx_leaf (ino_key_init 1) None 64"
  define ab where "ab = idx_leaf (dent_key_init plain_ext 1 ''ab'') (Some ''ab'') 128"
  define ba where "ba = idx_leaf (dent_key_init plain_ext 1 ''ba'') (Some ''ba'') 0"
  have l: "idx_list collision_state = [ba, i, ab]"
    by (simp add: collision_state_def i_def ab_def ba_def)
  have wf: "\<forall>e \<in> set (idx_list collision_state). ie_name_len e = length (ie_name_bytes e)"
    by (simp add: l i_def ab_def ba_def idx_leaf_def ie_name_bytes_def)
  have n: "length (idx_list collision_state) < 2 ^ 61"
    by (simp add: l)
  have c: "cmp_idx ba i = 1" "cmp_idx i ab = - 1" "cmp_idx ba ab = 1" "cmp_idx ab ba < 0"
    by (simp_all add: i_def ab_def ba_def cmp_idx_def keys_cmp_def namecmp_def idx_leaf_def
        ie_name_bytes_def dent_key_init_def ino_key_init_def plain_ext_def UBIFS_DENT_KEY_def
        UBIFS_INO_KEY_def Let_def)
  have q: "qsort cmp_idx [ba, i, ab] = [i, ab, ba]"
    by (simp add: qsort_def c)
  from write_index_sort_order [OF wf n] obtain arr where
    r: "write_index_sort collision_state = (Inr arr, collision_state\<lparr>head_flags := LPROPS_INDEX\<rparr>)"
    and o: "sorted_wrt (\<lambda>a b. \<not> spec_idx_less b a) arr"
    by blast
  have "fst (write_index_sort collision_state) = Inr [i, ab, ba]"
    using write_index_sort_result [OF n] by (simp only: l q)
  with r have "arr = [i, ab, ba]" by simp
  with r o n c(4) show ?thesis
    unfolding i_def ab_def ba_def by blast
qed

text \<open>
  The claim as the spec states it fails on a list with the same name twice under one
  key: the comparison function answers 1 both ways, and the sort returns its array.
\<close>

theorem duplicate_not_detected_counterexample:
  "ie_key (idx_list duplicate_state ! 0) = ie_key (idx_list duplicate_state ! 1) \<and>
   ie_name (idx_list duplicate_state ! 0) = ie_name (idx_list duplicate_state ! 1) \<and>
   cmp_idx (idx_list duplicate_state ! 0) (idx_list duplicate_state ! 1) = 1 \<and>
   cmp_idx (idx_list duplicate_state ! 1) (idx_list duplicate_state ! 0) = 1 \<and>
   write_index_sort duplicate_state =
     (Inr (qsort cmp_idx (idx_list duplicate_state)),
      duplicate_state\<lparr>head_flags := LPROPS_INDEX\<rparr>) \<and>
   length (qsort cmp_idx (idx_list duplicate_state)) = 2"
  by (simp add: duplicate_state_def write_index_sort_def qsort_def cmp_idx_def keys_cmp_def
      namecmp_def idx_leaf_def ie_name_bytes_def dent_key_init_def Let_def)

end
